theory Spec2Isabelle
  imports Complex_Main
begin

section \<open>Strings\<close>

text \<open>
  Python strings are modelled as \<open>string\<close> (lists of characters).  The functions of
  \<^verbatim>\<open>docker_utils.py\<close> inspect only ASCII characters (letters, the colon, the
  backslash, the space and the newline), so the encoding of other characters does not matter.
\<close>

abbreviation backslash :: char where
  "backslash \<equiv> CHR 0x5C"

abbreviation newline :: char where
  "newline \<equiv> CHR 0x0A"

definition lower_letters :: string where
  "lower_letters = ''abcdefghijklmnopqrstuvwxyz''"

definition upper_letters :: string where
  "upper_letters = ''ABCDEFGHIJKLMNOPQRSTUVWXYZ''"

text \<open>The character class \<^verbatim>\<open>[a-z]\<close>.\<close>

definition is_lower :: "char \<Rightarrow> bool" where
  "is_lower c = (c \<in> set lower_letters)"

text \<open>The character class \<^verbatim>\<open>[a-zA-Z]\<close>.\<close>

definition is_letter :: "char \<Rightarrow> bool" where
  "is_letter c = (c \<in> set lower_letters \<or> c \<in> set upper_letters)"

text \<open>\<^verbatim>\<open>str.lower()\<close> on a single character.\<close>

definition lower :: "char \<Rightarrow> char" where
  "lower c = (case map_of (zip upper_letters lower_letters) c of Some l \<Rightarrow> l | None \<Rightarrow> c)"

section \<open>Mount paths: \<^verbatim>\<open>xoscmounts\<close>\<close>

text \<open>
  \<^verbatim>\<open>host_mount = re.sub(r"^([a-zA-Z])\:", callback_lower_drive_letter, host_mount)\<close>

  The pattern is anchored at the start of the string, so at most the first two characters
  match; the whole match (letter and colon) is replaced by the lower-cased letter.
\<close>

definition sub_drive_letter :: "string \<Rightarrow> string" where
  "sub_drive_letter host_mount =
     (case host_mount of
        c # d # rest \<Rightarrow> if is_letter c \<and> d = CHR '':'' then lower c # rest else host_mount
      | _ \<Rightarrow> host_mount)"

text \<open>\<^verbatim>\<open>host_mount = re.sub(r"^([a-z])", "//\\1", host_mount)\<close>\<close>

definition sub_leading_lower :: "string \<Rightarrow> string" where
  "sub_leading_lower host_mount =
     (case host_mount of
        c # rest \<Rightarrow> if is_lower c then ''//'' @ c # rest else host_mount
      | [] \<Rightarrow> host_mount)"

text \<open>\<^verbatim>\<open>host_mount = re.sub(r"\\", "/", host_mount)\<close>: every backslash is replaced.\<close>

definition slash :: "char \<Rightarrow> char" where
  "slash c = (if c = backslash then CHR ''/'' else c)"

definition sub_backslash :: "string \<Rightarrow> string" where
  "sub_backslash host_mount = map slash host_mount"

definition xoscmounts :: "string \<Rightarrow> string" where
  "xoscmounts host_mount =
     (let host_mount = sub_drive_letter host_mount;
          host_mount = sub_leading_lower host_mount;
          host_mount = sub_backslash host_mount
      in host_mount)"

section \<open>Exit codes\<close>

definition EXIT_CODE_REALTIME_OUTED :: int where
  "EXIT_CODE_REALTIME_OUTED = 2"

definition MAX_TIME_RUNNING_SINGLE_CONTAINER :: real where
  "MAX_TIME_RUNNING_SINGLE_CONTAINER = 20"

text \<open>
  The exceptions the module raises.  \<^verbatim>\<open>DockerException\<close> and
  \<^verbatim>\<open>ContainerException\<close> are each raised at two places, told apart by their message.
  \<^verbatim>\<open>CalledProcessError\<close> is what \<^verbatim>\<open>subprocess.check_output\<close> raises on a
  nonzero completion status, \<^verbatim>\<open>ValueError\<close> what \<^verbatim>\<open>int\<close> raises on a string
  that is no number and \<^verbatim>\<open>subprocess.call\<close> on an argument that holds a NUL
  character, \<^verbatim>\<open>OSError\<close> what \<^verbatim>\<open>subprocess.call\<close> raises when the process
  cannot be spawned, \<^verbatim>\<open>AttributeError\<close> what \<^verbatim>\<open>sys.stderr.buffer\<close> raises when
  the standard error stream has no buffer; \<open>CallbackRaised\<close> is an exception leaving the
  caller's \<^verbatim>\<open>wait_callback\<close>.
\<close>

datatype docker_message = CouldNotLaunch string | ExitedPrematurely

datatype container_message = LingeringContainer | ErrorExitCode

datatype error =
    GameException
  | DockerException docker_message
  | ContainerException container_message
  | RealtimeOutedException
  | CalledProcessError int
  | ValueError
  | OSError
  | AttributeError
  | CallbackRaised

text \<open>
  The end of \<^verbatim>\<open>launch_game\<close> turns the exit codes into the outcome of the match:
  \<^verbatim>\<open>
  if any(exit_code == EXIT_CODE_REALTIME_OUTED for exit_code in exit_codes):
      raise RealtimeOutedException(...)
  if any(exit_code == 1 for exit_code in exit_codes):
      raise ContainerException(...)
  \<close>
\<close>

datatype outcome = Success | RealtimeTimedOut | UnitError

definition classify :: "int list \<Rightarrow> outcome" where
  "classify exit_codes =
     (if list_ex (\<lambda>exit_code. exit_code = EXIT_CODE_REALTIME_OUTED) exit_codes then RealtimeTimedOut
      else if list_ex (\<lambda>exit_code. exit_code = 1) exit_codes then UnitError
      else Success)"

fun outcome_error :: "outcome \<Rightarrow> error option" where
  "outcome_error Success = None"
| "outcome_error RealtimeTimedOut = Some RealtimeOutedException"
| "outcome_error UnitError = Some (ContainerException ErrorExitCode)"

section \<open>Building the launch command\<close>

text \<open>Python's \<^verbatim>\<open>str\<close> of an integer, as the f-strings of the module use it.\<close>

definition digit_char :: "nat \<Rightarrow> char" where
  "digit_char d = ''0123456789'' ! d"

fun str_nat :: "nat \<Rightarrow> string" where
  "str_nat n = (if n < 10 then [digit_char n] else str_nat (n div 10) @ [digit_char (n mod 10)])"

declare str_nat.simps [simp del]

definition str_int :: "int \<Rightarrow> string" where
  "str_int i = (if i < 0 then CHR ''-'' # str_nat (nat (- i)) else str_nat (nat i))"

text \<open>
  The classes of \<^verbatim>\<open>scbw.player\<close> are not part of the module; a player is taken with
  the attributes the module reads.  \<open>race\<close> is \<^verbatim>\<open>player.race.value\<close>,
  \<open>javaDebugPort\<close> is \<^verbatim>\<open>player.meta.javaDebugPort\<close>.
\<close>

datatype player =
    is_HumanPlayer: HumanPlayer (name: string) (race: string)
  | is_BotPlayer: BotPlayer (name: string) (race: string) (bot_dir: string) (bot_basefilename: string)
      (bwapi_version: string) (javaDebugPort: "int option") (write_dir: string) (read_dir: string)

text \<open>
  The keyword arguments that \<^verbatim>\<open>launch_game\<close> passes on to \<^verbatim>\<open>launch_image\<close>
  as \<^verbatim>\<open>**launch_params\<close>.  \<open>game_type\<close> is \<^verbatim>\<open>game_type.value\<close>.
\<close>

record launch_params =
  headless :: bool
  game_name :: string
  map_name :: string
  game_type :: string
  game_speed :: int
  timeout :: "int option"
  hide_names :: bool
  drop_players :: bool
  log_dir :: string
  map_dir :: string
  bwapi_data_bwta_dir :: string
  bwapi_data_bwta2_dir :: string
  vnc_base_port :: int
  vnc_host :: string
  docker_image :: string
  docker_opts :: "string list"

definition DOCKER_STARCRAFT_NETWORK :: string where
  "DOCKER_STARCRAFT_NETWORK = ''sc_net''"

definition LOG_DIR :: string where
  "LOG_DIR = ''/app/logs''"

definition MAP_DIR :: string where
  "MAP_DIR = ''/app/sc/maps''"

definition BWAPI_DATA_BWTA_DIR :: string where
  "BWAPI_DATA_BWTA_DIR = ''/app/sc/bwapi-data/BWTA''"

definition BWAPI_DATA_BWTA2_DIR :: string where
  "BWAPI_DATA_BWTA2_DIR = ''/app/sc/bwapi-data/BWTA2''"

definition BOT_DATA_WRITE_DIR :: string where
  "BOT_DATA_WRITE_DIR = ''/app/sc/bwapi-data/write''"

definition BOT_DIR :: string where
  "BOT_DIR = ''/app/bot''"

text \<open>\<^verbatim>\<open>player.name.replace(' ', '_')\<close>\<close>

definition replace_spaces :: "string \<Rightarrow> string" where
  "replace_spaces s = map (\<lambda>c. if c = CHR '' '' then CHR ''_'' else c) s"

definition container_name_of :: "string \<Rightarrow> int \<Rightarrow> player \<Rightarrow> string" where
  "container_name_of game nth_player player =
     game @ ''_'' @ str_int nth_player @ ''_'' @ replace_spaces (name player)"

definition bot_data_write_dir_of :: "string \<Rightarrow> int \<Rightarrow> player \<Rightarrow> string" where
  "bot_data_write_dir_of game nth_player player =
     bot_dir player @ ''/write/'' @ game @ ''_'' @ str_int nth_player"

text \<open>
  A Python dictionary keeps its keys in insertion order; assigning to a key that is present
  replaces the value where it stands.
\<close>

fun dict_set :: "string \<Rightarrow> string \<Rightarrow> (string \<times> string) list \<Rightarrow> (string \<times> string) list" where
  "dict_set k v [] = [(k, v)]"
| "dict_set k v ((k', v') # kvs) = (if k' = k then (k, v) # kvs else (k', v') # dict_set k v kvs)"

definition flag :: "bool \<Rightarrow> string" where
  "flag b = (if b then ''1'' else ''0'')"

definition launch_env :: "player \<Rightarrow> int \<Rightarrow> int \<Rightarrow> launch_params \<Rightarrow> (string \<times> string) list" where
  "launch_env player nth_player num_players p =
     (let env = [
            (''PLAYER_NAME'', name player),
            (''PLAYER_RACE'', race player),
            (''NTH_PLAYER'', str_int nth_player),
            (''NUM_PLAYERS'', str_int num_players),
            (''GAME_NAME'', game_name p),
            (''MAP_NAME'', ''/app/sc/maps/'' @ map_name p),
            (''GAME_TYPE'', game_type p),
            (''SPEED_OVERRIDE'', str_int (game_speed p)),
            (''HIDE_NAMES'', flag (hide_names p)),
            (''DROP_PLAYERS'', flag (drop_players p)),
            (''TM_LOG_RESULTS'', ''../logs/'' @ game_name p @ ''_'' @ str_int nth_player @ ''_results.json''),
            (''TM_LOG_FRAMETIMES'', ''../logs/'' @ game_name p @ ''_'' @ str_int nth_player @ ''_frames.csv''),
            (''TM_SPEED_OVERRIDE'', str_int (game_speed p)),
            (''TM_ALLOW_USER_INPUT'', flag (is_HumanPlayer player)),
            (''EXIT_CODE_REALTIME_OUTED'', str_int EXIT_CODE_REALTIME_OUTED),
            (''JAVA_DEBUG'', ''0'')];
          env = (if is_BotPlayer player then
                   (let env = dict_set ''BOT_FILE'' (bot_basefilename player) env;
                        env = dict_set ''BOT_BWAPI'' (bwapi_version player) env
                    in case javaDebugPort player of
                         None \<Rightarrow> env
                       | Some port \<Rightarrow>
                           dict_set ''JAVA_DEBUG_PORT'' (str_int port) (dict_set ''JAVA_DEBUG'' ''1'' env))
                 else env);
          env = (case timeout p of None \<Rightarrow> env
                 | Some t \<Rightarrow> dict_set ''PLAY_TIMEOUT'' (str_int t) env)
      in env)"

definition entrypoint_opts :: "player \<Rightarrow> int \<Rightarrow> launch_params \<Rightarrow> string list" where
  "entrypoint_opts player nth_player p =
     (let is_server = (nth_player = 0) in
      if \<not> headless p then [''--headful'']
      else [''--game'', game_name p, ''--name'', name player, ''--race'', race player, ''--lan'']
           @ (if is_server then [''--host'', ''--map'', ''/app/sc/maps/'' @ map_name p]
              else [''--join'']))"

text \<open>
  The list \<^verbatim>\<open>cmd\<close> of \<^verbatim>\<open>launch_image\<close>, built by the same sequence of
  extensions.
\<close>

definition launch_cmd :: "player \<Rightarrow> int \<Rightarrow> int \<Rightarrow> launch_params \<Rightarrow> string list" where
  "launch_cmd player nth_player num_players p =
     (let container_name = container_name_of (game_name p) nth_player player;
          cmd = [''docker'', ''run'',
                 ''-d'',
                 ''--privileged'',
                 ''--name'', container_name,
                 ''--volume'', xoscmounts (log_dir p) @ '':'' @ LOG_DIR @ '':rw'',
                 ''--volume'', xoscmounts (map_dir p) @ '':'' @ MAP_DIR @ '':rw'',
                 ''--volume'', xoscmounts (bwapi_data_bwta_dir p) @ '':'' @ BWAPI_DATA_BWTA_DIR @ '':rw'',
                 ''--volume'', xoscmounts (bwapi_data_bwta2_dir p) @ '':'' @ BWAPI_DATA_BWTA2_DIR @ '':rw''];
          cmd = (if docker_opts p \<noteq> [] then cmd @ docker_opts p else cmd);
          cmd = (if ''--net'' \<notin> set (docker_opts p)
                 then cmd @ [''--net'', DOCKER_STARCRAFT_NETWORK] else cmd);
          cmd = (if \<not> headless p
                 then cmd @ [''-p'', str_int (vnc_base_port p + nth_player) @ '':5900''] else cmd);
          cmd = (if is_BotPlayer player then
                   (let bot_data_write_dir = bot_data_write_dir_of (game_name p) nth_player player;
                        cmd = cmd @ [''--volume'', xoscmounts bot_data_write_dir @ '':'' @ BOT_DATA_WRITE_DIR @ '':rw''];
                        cmd = cmd @ [''--volume'', xoscmounts (bot_dir player) @ '':'' @ BOT_DIR @ '':ro'']
                    in case javaDebugPort player of
                         None \<Rightarrow> cmd
                       | Some port \<Rightarrow> cmd @ [''-p'', str_int port @ '':'' @ str_int port])
                 else cmd);
          cmd = cmd @ concat (map (\<lambda>(key, value). [''-e'', key @ ''='' @ value])
                                (launch_env player nth_player num_players p));
          cmd = cmd @ [docker_image p];
          cmd = (if is_BotPlayer player then cmd @ [''/app/play_bot.sh'']
                 else cmd @ [''/app/play_human.sh'']);
          cmd = cmd @ entrypoint_opts player nth_player p
      in cmd)"

section \<open>The container runtime\<close>

text \<open>
  Everything the module does to the outside world is recorded as an event, in program order.
\<close>

datatype event =
    OsRemove string
  | OsMakedirs string
  | SubprocessCall "string list"
  | CheckOutput "string list"
  | CheckOutputShell string
  | TimeSleep nat
  | TimeTime
  | WaitCallback
  | LaunchVncViewer string int
  | CopyTree string string

text \<open>
  What a \<^verbatim>\<open>subprocess.call\<close> ends in: the process ran and exited with a status, or the
  call raised instead, \<^verbatim>\<open>OSError\<close> because the process could not be spawned or
  \<^verbatim>\<open>ValueError\<close> because an argument holds a NUL character.
\<close>

datatype call_result = Exited int | RaisedOSError | RaisedValueError

text \<open>
  The outside world answers: \<open>call_result n\<close> is what the \<open>n\<close>-th
  \<^verbatim>\<open>subprocess.call\<close> ends in, \<open>output_of n\<close> the completion status and the decoded
  standard output of the \<open>n\<close>-th \<^verbatim>\<open>subprocess.check_output\<close>, \<open>clock n\<close> the value
  of the \<open>n\<close>-th \<^verbatim>\<open>time.time()\<close> (a real number stands for the float);
  \<open>stderr_buffer\<close> tells whether \<^verbatim>\<open>sys.stderr\<close> has the attribute
  \<^verbatim>\<open>buffer\<close>.  Any sequence of answers is a runtime, so a statement for all runtimes
  covers every execution.  The file-system calls are taken to succeed.  The functions of
  \<^verbatim>\<open>scbw.logs\<close>, which are not part of the module, are fields of the runtime.
\<close>

record runtime =
  find_logs :: "string \<Rightarrow> string \<Rightarrow> string list"
  find_replays :: "string \<Rightarrow> string \<Rightarrow> string list"
  find_results :: "string \<Rightarrow> string \<Rightarrow> string list"
  find_frames :: "string \<Rightarrow> string \<Rightarrow> string list"
  call_result :: "nat \<Rightarrow> call_result"
  stderr_buffer :: bool
  output_of :: "nat \<Rightarrow> int \<times> string"
  clock :: "nat \<Rightarrow> real"

record state =
  trace :: "event list"
  calls :: nat
  outputs :: nat
  clocks :: nat
  waits :: nat

definition initial :: state where
  "initial = \<lparr>trace = [], calls = 0, outputs = 0, clocks = 0, waits = 0\<rparr>"

definition emit :: "event \<Rightarrow> state \<Rightarrow> state" where
  "emit e s = s\<lparr>trace := trace s @ [e]\<rparr>"

text \<open>
  \<^verbatim>\<open>subprocess.call(cmd)\<close>: the completion status, or the exception the call raises.
  The module wraps none of its calls in \<^verbatim>\<open>try\<close>, so the exception goes to the caller.
\<close>

definition subprocess_call :: "runtime \<Rightarrow> string list \<Rightarrow> state \<Rightarrow> (error + int) \<times> state" where
  "subprocess_call rt cmd s =
     (case call_result rt (calls s) of
        Exited code \<Rightarrow> Inr code
      | RaisedOSError \<Rightarrow> Inl OSError
      | RaisedValueError \<Rightarrow> Inl ValueError,
      (emit (SubprocessCall cmd) s)\<lparr>calls := Suc (calls s)\<rparr>)"

definition check_output_of :: "runtime \<Rightarrow> event \<Rightarrow> state \<Rightarrow> (error + string) \<times> state" where
  "check_output_of rt e s =
     (let (code, out) = output_of rt (outputs s);
          s' = (emit e s)\<lparr>outputs := Suc (outputs s)\<rparr>
      in if code \<noteq> 0 then (Inl (CalledProcessError code), s') else (Inr out, s'))"

definition time_time :: "runtime \<Rightarrow> state \<Rightarrow> real \<times> state" where
  "time_time rt s = (clock rt (clocks s), (emit TimeTime s)\<lparr>clocks := Suc (clocks s)\<rparr>)"

section \<open>\<^verbatim>\<open>launch_image\<close>\<close>

text \<open>
  After the command is built (the write directory of a bot is created on the way), the
  command is run; on status 0 the container is looked up by name, and the identifier found is
  only logged.
\<close>

definition launch_image ::
  "runtime \<Rightarrow> player \<Rightarrow> int \<Rightarrow> int \<Rightarrow> launch_params \<Rightarrow> state \<Rightarrow> (error + unit) \<times> state" where
  "launch_image rt player nth_player num_players p s =
     (let container_name = container_name_of (game_name p) nth_player player;
          s = (if is_BotPlayer player
               then emit (OsMakedirs (bot_data_write_dir_of (game_name p) nth_player player)) s
               else s);
          cmd = launch_cmd player nth_player num_players p
      in case subprocess_call rt cmd s of
           (Inl e, s) \<Rightarrow> (Inl e, s)
         | (Inr code, s) \<Rightarrow>
             if code = 0 then
               (case check_output_of rt
                       (CheckOutput [''docker'', ''ps'', ''-f'', ''name='' @ container_name, ''-q'']) s of
                  (Inl e, s) \<Rightarrow> (Inl e, s)
                | (Inr container_id, s) \<Rightarrow> (Inr (), s))
             else (Inl (DockerException (CouldNotLaunch container_name)), s))"

section \<open>Listing, stopping, removing and inspecting containers\<close>

text \<open>\<^verbatim>\<open>str.split("\n")\<close>\<close>

fun split_lines :: "string \<Rightarrow> string list" where
  "split_lines [] = [] # []"
| "split_lines (c # cs) =
     (if c = newline then [] # split_lines cs
      else (case split_lines cs of l # ls \<Rightarrow> (c # l) # ls | [] \<Rightarrow> [c] # []))"

text \<open>\<^verbatim>\<open>str.strip(chars)\<close>; without an argument the characters are the ASCII white space.\<close>

definition strip_chars :: "char list \<Rightarrow> string \<Rightarrow> string" where
  "strip_chars chars s =
     rev (dropWhile (\<lambda>c. c \<in> set chars) (rev (dropWhile (\<lambda>c. c \<in> set chars) s)))"

definition whitespace :: "char list" where
  "whitespace = [CHR '' '', CHR 0x09, CHR 0x0A, CHR 0x0B, CHR 0x0C, CHR 0x0D,
                 CHR 0x1C, CHR 0x1D, CHR 0x1E, CHR 0x1F]"

definition docker_ps_command :: "string \<Rightarrow> string" where
  "docker_ps_command name_filter =
     ''docker ps -f '' @ [CHR 0x22] @ ''name='' @ name_filter @ [CHR 0x22] @ '' -q''"

text \<open>
  The list comprehension of \<^verbatim>\<open>running_containers\<close>: the non-empty lines of the
  output, each stripped.
\<close>

definition containers_of :: "string \<Rightarrow> string list" where
  "containers_of out =
     map (strip_chars whitespace) (filter (\<lambda>container. container \<noteq> []) (split_lines out))"

definition running_containers :: "runtime \<Rightarrow> string \<Rightarrow> state \<Rightarrow> (error + string list) \<times> state" where
  "running_containers rt name_filter s =
     (case check_output_of rt (CheckOutputShell (docker_ps_command name_filter)) s of
        (Inl e, s) \<Rightarrow> (Inl e, s)
      | (Inr out, s) \<Rightarrow> (Inr (containers_of out), s))"

text \<open>
  \<^verbatim>\<open>stop_containers\<close> and \<^verbatim>\<open>cleanup_containers\<close>: with names, one command is
  run and its completion status is dropped; an exception of the call is not caught.
  \<^verbatim>\<open>stop_containers\<close> passes \<^verbatim>\<open>sys.stderr.buffer\<close> to the call, which is evaluated
  before the call is made.
\<close>

definition stop_containers :: "runtime \<Rightarrow> string list \<Rightarrow> state \<Rightarrow> (error + unit) \<times> state" where
  "stop_containers rt containers s =
     (if length containers \<noteq> 0
      then (if \<not> stderr_buffer rt then (Inl AttributeError, s)
            else (case subprocess_call rt ([''docker'', ''stop''] @ containers) s of
                    (Inl e, s) \<Rightarrow> (Inl e, s)
                  | (Inr code, s) \<Rightarrow> (Inr (), s)))
      else (Inr (), s))"

definition cleanup_containers :: "runtime \<Rightarrow> string list \<Rightarrow> state \<Rightarrow> (error + unit) \<times> state" where
  "cleanup_containers rt containers s =
     (if length containers \<noteq> 0
      then (case subprocess_call rt ([''docker'', ''rm''] @ containers) s of
              (Inl e, s) \<Rightarrow> (Inl e, s)
            | (Inr code, s) \<Rightarrow> (Inr (), s))
      else (Inr (), s))"

text \<open>
  \<^verbatim>\<open>int(s)\<close> for the output of \<^verbatim>\<open>docker inspect\<close>: an optional sign and decimal
  digits, possibly surrounded by white space.
\<close>

definition digit_value :: "char \<Rightarrow> nat option" where
  "digit_value c = map_of (zip ''0123456789'' [0, 1, 2, 3, 4, 5, 6, 7, 8, 9]) c"

fun parse_digits :: "nat \<Rightarrow> string \<Rightarrow> nat option" where
  "parse_digits acc [] = Some acc"
| "parse_digits acc (c # cs) =
     (case digit_value c of None \<Rightarrow> None | Some d \<Rightarrow> parse_digits (10 * acc + d) cs)"

definition parse_unsigned :: "string \<Rightarrow> nat option" where
  "parse_unsigned s = (if s = [] then None else parse_digits 0 s)"

definition py_int :: "string \<Rightarrow> int option" where
  "py_int s =
     (case strip_chars whitespace s of
        [] \<Rightarrow> None
      | c # cs \<Rightarrow>
          if c = CHR ''-'' then map_option (\<lambda>n. - int n) (parse_unsigned cs)
          else if c = CHR ''+'' then map_option int (parse_unsigned cs)
          else map_option int (parse_unsigned (c # cs)))"

definition inspect_strip :: "char list" where
  "inspect_strip = [CHR 0x0A, CHR 0x0D, CHR 0x09, CHR '' '', CHR 0x27, CHR 0x22]"

definition container_exit_code :: "runtime \<Rightarrow> string \<Rightarrow> state \<Rightarrow> (error + int) \<times> state" where
  "container_exit_code rt container s =
     (case check_output_of rt
             (CheckOutput [''docker'', ''inspect'', container,
                           ''--format='' @ [CHR 0x27] @ ''{{.State.ExitCode}}'' @ [CHR 0x27]]) s of
        (Inl e, s) \<Rightarrow> (Inl e, s)
      | (Inr out, s) \<Rightarrow>
          (case py_int (strip_chars inspect_strip out) of
             None \<Rightarrow> (Inl ValueError, s)
           | Some code \<Rightarrow> (Inr code, s)))"

section \<open>\<^verbatim>\<open>launch_game\<close>\<close>

text \<open>
  \<^verbatim>\<open>for file in existing_files: os.remove(file)\<close>, over the chained results of the four
  searches.
\<close>

definition remove_existing_files :: "runtime \<Rightarrow> launch_params \<Rightarrow> state \<Rightarrow> state" where
  "remove_existing_files rt p s =
     (let existing_files =
            find_logs rt (log_dir p) (game_name p) @
            find_replays rt (map_dir p) (game_name p) @
            find_results rt (log_dir p) (game_name p) @
            find_frames rt (log_dir p) (game_name p)
      in fold (\<lambda>file. emit (OsRemove file)) existing_files s)"

text \<open>
  \<^verbatim>\<open>for i, player in enumerate(players): launch_image(player, nth_player=i, ...)\<close>; the
  first exception ends the loop.
\<close>

fun launch_players ::
  "runtime \<Rightarrow> launch_params \<Rightarrow> int \<Rightarrow> int \<Rightarrow> player list \<Rightarrow> state \<Rightarrow> (error + unit) \<times> state" where
  "launch_players rt p num_players i [] s = (Inr (), s)"
| "launch_players rt p num_players i (player # players) s =
     (case launch_image rt player i num_players p s of
        (Inl e, s) \<Rightarrow> (Inl e, s)
      | (Inr u, s) \<Rightarrow> launch_players rt p num_players (i + 1) players s)"

definition launch_vnc_viewers :: "player list \<Rightarrow> launch_params \<Rightarrow> bool \<Rightarrow> state \<Rightarrow> state" where
  "launch_vnc_viewers players p show_all s =
     fold (\<lambda>(i, player). emit (LaunchVncViewer (vnc_host p) (vnc_base_port p + int i)))
          (enumerate 0 (if show_all then players else take 1 players)) s"

text \<open>
  The caller's \<^verbatim>\<open>wait_callback\<close>: its \<open>n\<close>-th invocation returns, or raises when
  \<open>wait_callback n\<close> holds.
\<close>

definition call_wait_callback :: "(nat \<Rightarrow> bool) \<Rightarrow> state \<Rightarrow> (error + unit) \<times> state" where
  "call_wait_callback wait_callback s =
     (let s' = (emit WaitCallback s)\<lparr>waits := Suc (waits s)\<rparr>
      in if wait_callback (waits s) then (Inl CallbackRaised, s') else (Inr (), s'))"

text \<open>
  The loop \<^verbatim>\<open>while True\<close>, run for at most \<open>fuel\<close> iterations: \<open>None\<close> means that the
  loop has not ended within them.  On \<^verbatim>\<open>break\<close> the result is the variable
  \<^verbatim>\<open>containers\<close> as the loop leaves it.  \<^verbatim>\<open>time.time()\<close> in the second test is
  only evaluated when there is exactly one container (\<^verbatim>\<open>and\<close> is short-circuit).
\<close>

fun poll_loop ::
  "nat \<Rightarrow> runtime \<Rightarrow> (nat \<Rightarrow> bool) \<Rightarrow> string \<Rightarrow> real \<Rightarrow> state \<Rightarrow> ((error + string list) \<times> state) option" where
  "poll_loop 0 rt wait_callback game running_time s = None"
| "poll_loop (Suc fuel) rt wait_callback game running_time s =
     (case running_containers rt game s of
        (Inl e, s) \<Rightarrow> Some (Inl e, s)
      | (Inr containers, s) \<Rightarrow>
          if length containers = 0 then Some (Inr containers, s)
          else
            (let (running_time, s) =
                   (if length containers \<ge> 2 then time_time rt s else (running_time, s));
                 (lingering, s) =
                   (if length containers = 1
                    then (let (now, s) = time_time rt s
                          in (now - running_time > MAX_TIME_RUNNING_SINGLE_CONTAINER, s))
                    else (False, s))
             in if lingering then Some (Inl (ContainerException LingeringContainer), s)
                else (case call_wait_callback wait_callback s of
                        (Inl e, s) \<Rightarrow> Some (Inl e, s)
                      | (Inr u, s) \<Rightarrow> poll_loop fuel rt wait_callback game running_time s)))"

text \<open>
  \<^verbatim>\<open>running_time = time.time()\<close> followed by the loop.
\<close>

definition wait_until_finished ::
  "nat \<Rightarrow> runtime \<Rightarrow> (nat \<Rightarrow> bool) \<Rightarrow> string \<Rightarrow> state \<Rightarrow> ((error + string list) \<times> state) option" where
  "wait_until_finished fuel rt wait_callback game s =
     (let (running_time, s) = time_time rt s
      in poll_loop fuel rt wait_callback game running_time s)"

text \<open>\<^verbatim>\<open>exit_codes = [container_exit_code(container) for container in containers]\<close>\<close>

fun container_exit_codes :: "runtime \<Rightarrow> string list \<Rightarrow> state \<Rightarrow> (error + int list) \<times> state" where
  "container_exit_codes rt [] s = (Inr [], s)"
| "container_exit_codes rt (container # containers) s =
     (case container_exit_code rt container s of
        (Inl e, s) \<Rightarrow> (Inl e, s)
      | (Inr code, s) \<Rightarrow>
          (case container_exit_codes rt containers s of
             (Inl e, s) \<Rightarrow> (Inl e, s)
           | (Inr codes, s) \<Rightarrow> (Inr (code # codes), s)))"

definition overwrite_bot_files :: "player list \<Rightarrow> launch_params \<Rightarrow> state \<Rightarrow> state" where
  "overwrite_bot_files players p s =
     fold (\<lambda>(nth_player, player).
             if is_BotPlayer player
             then emit (CopyTree (write_dir player @ ''/'' @ game_name p @ ''_'' @ str_int (int nth_player))
                                 (read_dir player))
             else id)
          (enumerate 0 players) s"

text \<open>
  What follows the loop: the exit codes of \<^verbatim>\<open>containers\<close> are read, the containers seen
  at the start are removed, the exit codes decide the exception, and the files of the bots
  are copied when \<^verbatim>\<open>read_overwrite\<close> is set.
\<close>

definition finish_game ::
  "runtime \<Rightarrow> player list \<Rightarrow> launch_params \<Rightarrow> bool \<Rightarrow> string list \<Rightarrow> string list \<Rightarrow> state
     \<Rightarrow> (error + unit) \<times> state" where
  "finish_game rt players p read_overwrite start_containers containers s =
     (case container_exit_codes rt containers s of
        (Inl e, s) \<Rightarrow> (Inl e, s)
      | (Inr exit_codes, s) \<Rightarrow>
          (case cleanup_containers rt start_containers s of
             (Inl e, s) \<Rightarrow> (Inl e, s)
           | (Inr u, s) \<Rightarrow>
               (case outcome_error (classify exit_codes) of
                  Some e \<Rightarrow> (Inl e, s)
                | None \<Rightarrow> (Inr (), if read_overwrite then overwrite_bot_files players p s else s))))"

text \<open>
  The part of \<^verbatim>\<open>launch_game\<close> after the players are launched, from the settle delay
  on.
\<close>

definition monitor_game ::
  "nat \<Rightarrow> runtime \<Rightarrow> player list \<Rightarrow> launch_params \<Rightarrow> bool \<Rightarrow> bool \<Rightarrow> (nat \<Rightarrow> bool) \<Rightarrow> state
     \<Rightarrow> ((error + unit) \<times> state) option" where
  "monitor_game fuel rt players p show_all read_overwrite wait_callback s =
     (let s = emit (TimeSleep 1) s in
      case running_containers rt (game_name p) s of
        (Inl e, s) \<Rightarrow> Some (Inl e, s)
      | (Inr start_containers, s) \<Rightarrow>
          if length start_containers \<noteq> length players
          then Some (Inl (DockerException ExitedPrematurely), s)
          else
            (let s = (if \<not> headless p then launch_vnc_viewers players p show_all s else s) in
             case wait_until_finished fuel rt wait_callback (game_name p) s of
               None \<Rightarrow> None
             | Some (Inl e, s) \<Rightarrow> Some (Inl e, s)
             | Some (Inr containers, s) \<Rightarrow>
                 Some (finish_game rt players p read_overwrite start_containers containers s)))"

definition launch_game ::
  "nat \<Rightarrow> runtime \<Rightarrow> player list \<Rightarrow> launch_params \<Rightarrow> bool \<Rightarrow> bool \<Rightarrow> (nat \<Rightarrow> bool) \<Rightarrow> state
     \<Rightarrow> ((error + unit) \<times> state) option" where
  "launch_game fuel rt players p show_all read_overwrite wait_callback s =
     (if length players = 0 then Some (Inl GameException, s)
      else
        (let s = remove_existing_files rt p s in
         case launch_players rt p (int (length players)) 0 players s of
           (Inl e, s) \<Rightarrow> Some (Inl e, s)
         | (Inr u, s) \<Rightarrow> monitor_game fuel rt players p show_all read_overwrite wait_callback s))"

section \<open>Reading a trace\<close>

text \<open>
  The events of interest in a trace: reading an exit code (\<^verbatim>\<open>docker inspect\<close>), and
  stopping or removing containers (\<^verbatim>\<open>docker stop\<close>, \<^verbatim>\<open>docker rm\<close>).
\<close>

fun is_inspect :: "event \<Rightarrow> bool" where
  "is_inspect (CheckOutput cmd) = (take 2 cmd = [''docker'', ''inspect''])"
| "is_inspect e = False"

fun is_remove :: "event \<Rightarrow> bool" where
  "is_remove (SubprocessCall cmd) =
     (take 2 cmd = [''docker'', ''rm''] \<or> take 2 cmd = [''docker'', ''stop''])"
| "is_remove e = False"

definition is_cleanup :: "event \<Rightarrow> bool" where
  "is_cleanup e = (is_inspect e \<or> is_remove e)"

definition cleanup_events :: "state \<Rightarrow> event list" where
  "cleanup_events s = filter is_cleanup (trace s)"


definition final_state :: "(('e + 'a) \<times> state) option \<Rightarrow> state" where
  "final_state r = (case r of Some (x, s) \<Rightarrow> s | None \<Rightarrow> initial)"

text \<open>
  The events of \<open>k\<close> iterations of the loop of \<^verbatim>\<open>launch_game\<close> that see one container
  and go on: the listing of the running containers, the clock reading, the caller's callback.
\<close>

definition polls :: "string \<Rightarrow> nat \<Rightarrow> event list" where
  "polls game k =
     concat (replicate k [CheckOutputShell (docker_ps_command game), TimeTime, WaitCallback])"

section \<open>Scenarios\<close>

text \<open>Concrete players, parameters and runtimes, on which the theorems below are tried.\<close>

definition no_files :: "string \<Rightarrow> string \<Rightarrow> string list" where
  "no_files dir game = []"

definition example_params :: launch_params where
  "example_params =
     \<lparr>headless = True, game_name = ''m1'', map_name = ''a.scx'', game_type = ''FFA'',
      game_speed = 0, timeout = None, hide_names = False, drop_players = False,
      log_dir = ''/logs'', map_dir = ''/maps'', bwapi_data_bwta_dir = ''/bwta'',
      bwapi_data_bwta2_dir = ''/bwta2'', vnc_base_port = 5900, vnc_host = ''localhost'',
      docker_image = ''starcraft:game'', docker_opts = []\<rparr>"

definition alice :: player where
  "alice = HumanPlayer ''alice'' ''T''"

definition bob :: player where
  "bob = HumanPlayer ''bob'' ''Z''"

text \<open>A runtime in which every command fails with status 1.\<close>

definition failing_runtime :: runtime where
  "failing_runtime =
     \<lparr>find_logs = no_files, find_replays = no_files, find_results = no_files,
      find_frames = no_files,
      call_result = (\<lambda>n. Exited 1), stderr_buffer = True, output_of = (\<lambda>n. (1, [])), clock = (\<lambda>n. 0)\<rparr>"

text \<open>
  A runtime in which every command succeeds and every \<^verbatim>\<open>docker ps\<close> prints nothing: no
  container is found running.
\<close>

definition unfound_runtime :: runtime where
  "unfound_runtime =
     \<lparr>find_logs = no_files, find_replays = no_files, find_results = no_files,
      find_frames = no_files,
      call_result = (\<lambda>n. Exited 0), stderr_buffer = True, output_of = (\<lambda>n. (0, [])), clock = (\<lambda>n. 0)\<rparr>"

text \<open>
  A match of two players that ends: the two name lookups of \<^verbatim>\<open>launch_image\<close> find a
  container each, the check after the settle delay and the first poll see both containers,
  the second poll sees none.  Any \<^verbatim>\<open>docker inspect\<close> after that would report the exit
  code 2.
\<close>

definition realtime_outed_runtime :: runtime where
  "realtime_outed_runtime =
     \<lparr>find_logs = no_files, find_replays = no_files, find_results = no_files,
      find_frames = no_files,
      call_result = (\<lambda>n. Exited 0), stderr_buffer = True,
      output_of = (\<lambda>n. if n < 2 then (0, ''c1'' @ [newline])
                        else if n < 4 then (0, ''c1'' @ [newline] @ ''c2'' @ [newline])
                        else if n = 4 then (0, [])
                        else (0, [CHR 0x27] @ ''2'' @ [CHR 0x27, newline])),
      clock = (\<lambda>n. real n)\<rparr>"

text \<open>
  A runtime in which one container keeps running: every \<^verbatim>\<open>docker ps\<close> prints the same
  single identifier.  The clock reads 0 at first and 25 from then on.
\<close>

definition lingering_runtime :: runtime where
  "lingering_runtime =
     \<lparr>find_logs = no_files, find_replays = no_files, find_results = no_files,
      find_frames = no_files,
      call_result = (\<lambda>n. Exited 0), stderr_buffer = True,
      output_of = (\<lambda>n. (0, ''c1'' @ [newline])),
      clock = (\<lambda>n. if n = 0 then 0 else 25)\<rparr>"

definition never_raises :: "nat \<Rightarrow> bool" where
  "never_raises n = False"

text \<open>A runtime in which containers start but the \<^verbatim>\<open>docker ps\<close> command itself fails.\<close>

definition lookup_failing_runtime :: runtime where
  "lookup_failing_runtime =
     \<lparr>find_logs = no_files, find_replays = no_files, find_results = no_files,
      find_frames = no_files,
      call_result = (\<lambda>n. Exited 0), stderr_buffer = True, output_of = (\<lambda>n. (125, [])), clock = (\<lambda>n. 0)\<rparr>"

text \<open>
  A runtime in which one container keeps running and the clock advances by 15 seconds from
  one reading to the next.
\<close>

definition ticking_runtime :: runtime where
  "ticking_runtime =
     \<lparr>find_logs = no_files, find_replays = no_files, find_results = no_files,
      find_frames = no_files,
      call_result = (\<lambda>n. Exited 0), stderr_buffer = True,
      output_of = (\<lambda>n. (0, ''c1'' @ [newline])),
      clock = (\<lambda>n. 15 * real n)\<rparr>"

text \<open>A runtime in which no process can be spawned.\<close>

definition spawnless_runtime :: runtime where
  "spawnless_runtime =
     \<lparr>find_logs = no_files, find_replays = no_files, find_results = no_files,
      find_frames = no_files,
      call_result = (\<lambda>n. RaisedOSError), stderr_buffer = True,
      output_of = (\<lambda>n. (0, [])), clock = (\<lambda>n. 0)\<rparr>"

text \<open>
  A match of two players in which one container outlives the other: the check after the
  settle delay and the first poll see both containers, every later poll sees the first one
  alone.  The clock reads 0 on entry to the loop, 1 at the first poll and 30 from then on.
\<close>

definition peer_exit_runtime :: runtime where
  "peer_exit_runtime =
     \<lparr>find_logs = no_files, find_replays = no_files, find_results = no_files,
      find_frames = no_files,
      call_result = (\<lambda>n. Exited 0), stderr_buffer = True,
      output_of = (\<lambda>n. if n < 2 then (0, ''c1'' @ [newline])
                        else if n < 4 then (0, ''c1'' @ [newline] @ ''c2'' @ [newline])
                        else (0, ''c1'' @ [newline])),
      clock = (\<lambda>n. if n = 0 then 0 else if n = 1 then 1 else 30)\<rparr>"
section \<open>Properties of the path normalisation\<close>

lemma lower_is_lower: "is_letter c \<Longrightarrow> is_lower (lower c)"
  unfolding is_letter_def is_lower_def lower_def lower_letters_def upper_letters_def
  by auto

lemma slash_lower: "is_letter c \<Longrightarrow> slash (lower c) = lower c"
  unfolding is_letter_def slash_def lower_def lower_letters_def upper_letters_def
  by auto

lemma is_lower_slash [simp]: "is_lower (slash c) = is_lower c"
  unfolding is_lower_def slash_def lower_letters_def by auto

lemma is_letter_slash [simp]: "is_letter (slash c) = is_letter c"
  unfolding is_letter_def slash_def lower_letters_def upper_letters_def by auto

lemma slash_eq_colon [simp]: "(slash c = CHR '':'') = (c = CHR '':'')"
  unfolding slash_def by auto

lemma slash_slash [simp]: "slash (slash c) = slash c"
  unfolding slash_def by auto

lemma slash_not_lower [simp]: "\<not> is_lower (CHR ''/'')"
  unfolding is_lower_def lower_letters_def by simp

lemma is_lower_letter: "is_lower c \<Longrightarrow> is_letter c"
  unfolding is_letter_def is_lower_def by simp

lemma xoscmounts_drive:
  "is_letter c \<Longrightarrow> xoscmounts (c # CHR '':'' # rest) = ''//'' @ lower c # map slash rest"
  by (simp add: xoscmounts_def sub_drive_letter_def sub_leading_lower_def sub_backslash_def
      lower_is_lower slash_lower) (simp add: slash_def)

lemma xoscmounts_lower:
  assumes "is_lower c" and "\<not> (\<exists>r. rest = CHR '':'' # r)"
  shows "xoscmounts (c # rest) = ''//'' @ c # map slash rest"
proof -
  have a: "sub_drive_letter (c # rest) = c # rest"
    using assms(2) by (cases rest) (simp_all add: sub_drive_letter_def)
  have "c \<noteq> backslash"
    using assms(1) by (auto simp: is_lower_def lower_letters_def)
  then show ?thesis
    using assms(1) by (simp add: xoscmounts_def a sub_leading_lower_def sub_backslash_def slash_def)
qed

lemma xoscmounts_other:
  assumes "\<not> (\<exists>c r. p = c # r \<and> is_lower c)"
    and "\<not> (\<exists>c r. p = c # CHR '':'' # r \<and> is_letter c)"
  shows "xoscmounts p = map slash p"
proof (cases p)
  case Nil
  then show ?thesis
    by (simp add: xoscmounts_def sub_drive_letter_def sub_leading_lower_def sub_backslash_def)
next
  case (Cons c r)
  have a: "sub_drive_letter p = p"
    using assms(2) Cons by (cases r) (auto simp: sub_drive_letter_def)
  have b: "sub_leading_lower p = p"
    using assms(1) Cons by (simp add: sub_leading_lower_def)
  show ?thesis
    by (simp add: xoscmounts_def a b sub_backslash_def)
qed

text \<open>
  C5.  The three rules in their order, as a description of the result for every input.
  (a) then (b): a path that starts with a letter and a colon loses the colon, has the letter
  lower-cased and is prefixed with \<open>//\<close>.  (b): a path that starts with a lower-case letter
  (and no colon after it) is prefixed with \<open>//\<close>.  Every other path keeps its start.
  (c): in each case every backslash of the rest becomes a forward slash.  In particular
  \<^verbatim>\<open>C:\Users\x\<close> becomes \<^verbatim>\<open>//c/Users/x\<close>.
\<close>

theorem xoscmounts_rules:
  "(is_letter c \<longrightarrow> xoscmounts (c # CHR '':'' # rest) = ''//'' @ lower c # map slash rest)
   \<and> (is_lower c \<and> \<not> (\<exists>r. rest = CHR '':'' # r)
        \<longrightarrow> xoscmounts (c # rest) = ''//'' @ c # map slash rest)
   \<and> (\<not> (\<exists>c r. p = c # r \<and> is_lower c) \<and> \<not> (\<exists>c r. p = c # CHR '':'' # r \<and> is_letter c)
        \<longrightarrow> xoscmounts p = map slash p)
   \<and> xoscmounts (''C:'' @ [backslash] @ ''Users'' @ [backslash] @ ''x'') = ''//c/Users/x''"
proof -
  have "is_letter (CHR ''C'')"
    by (simp add: is_letter_def upper_letters_def)
  then have "xoscmounts (CHR ''C'' # CHR '':'' # ([backslash] @ ''Users'' @ [backslash] @ ''x''))
      = ''//'' @ lower (CHR ''C'') # map slash ([backslash] @ ''Users'' @ [backslash] @ ''x'')"
    by (rule xoscmounts_drive)
  then have "xoscmounts (''C:'' @ [backslash] @ ''Users'' @ [backslash] @ ''x'') = ''//c/Users/x''"
    by (simp add: lower_def upper_letters_def lower_letters_def slash_def)
  then show ?thesis
    using xoscmounts_drive xoscmounts_lower xoscmounts_other by blast
qed

theorem xoscmounts_rules_witness:
  "is_letter (CHR ''D'') \<and> xoscmounts (''D:'' @ [backslash] @ ''maps'') = ''//d/maps''
   \<and> is_lower (CHR ''h'') \<and> xoscmounts (''home'' @ [backslash] @ ''x'') = ''//home/x''
   \<and> xoscmounts (''/var'' @ [backslash] @ ''log'') = ''/var/log''
   \<and> xoscmounts ''Maps:1'' = ''Maps:1''"
proof -
  have l: "is_letter (CHR ''D'')"
    by (simp add: is_letter_def upper_letters_def)
  have h: "is_lower (CHR ''h'')"
    by (simp add: is_lower_def lower_letters_def)
  have 1: "xoscmounts (''D:'' @ [backslash] @ ''maps'') = ''//d/maps''"
    using l xoscmounts_rules [where c = "CHR ''D''" and rest = "[backslash] @ ''maps''"]
    by (simp add: lower_def upper_letters_def lower_letters_def slash_def)
  have 2: "xoscmounts (''home'' @ [backslash] @ ''x'') = ''//home/x''"
    using h xoscmounts_rules [where c = "CHR ''h''" and rest = "''ome'' @ [backslash] @ ''x''"]
    by (simp add: slash_def)
  have 3: "xoscmounts (''/var'' @ [backslash] @ ''log'') = ''/var/log''"
    using xoscmounts_rules [where p = "''/var'' @ [backslash] @ ''log''"]
    by (simp add: slash_def is_lower_def lower_letters_def)
  have 4: "xoscmounts ''Maps:1'' = ''Maps:1''"
    using xoscmounts_rules [where p = "''Maps:1''"]
    by (simp add: slash_def is_lower_def lower_letters_def)
  show ?thesis
    using l h 1 2 3 4 by simp
qed

text \<open>
  C6.  Normalising a normalised path changes nothing: \<open>xoscmounts (xoscmounts p) = xoscmounts p\<close>
  for every path \<open>p\<close>.
\<close>

theorem xoscmounts_idempotent: "xoscmounts (xoscmounts p) = xoscmounts p"
proof (cases p)
  case Nil
  then show ?thesis
    by (simp add: xoscmounts_def sub_drive_letter_def sub_leading_lower_def sub_backslash_def)
next
  case (Cons c rest)
  show ?thesis
  proof (cases rest)
    case Nil
    with Cons show ?thesis
      by (auto simp add: xoscmounts_def sub_drive_letter_def sub_leading_lower_def
          sub_backslash_def Let_def)
  next
    case (Cons d rest')
    with \<open>p = c # rest\<close> show ?thesis
      by (auto simp add: xoscmounts_def sub_drive_letter_def sub_leading_lower_def
          sub_backslash_def Let_def lower_is_lower dest: is_lower_letter)
  qed
qed

theorem xoscmounts_idempotent_witness:
  "xoscmounts (xoscmounts (''C:'' @ [backslash] @ ''Users'')) = ''//c/Users''"
proof -
  have "xoscmounts (''C:'' @ [backslash] @ ''Users'') = ''//c/Users''"
    by (simp add: xoscmounts_def sub_drive_letter_def sub_leading_lower_def sub_backslash_def
        is_letter_def is_lower_def lower_def upper_letters_def lower_letters_def slash_def)
  then show ?thesis
    using xoscmounts_idempotent [of "''C:'' @ [backslash] @ ''Users''"] by simp
qed

section \<open>Properties of the classification of exit codes\<close>

text \<open>
  C4.  For every sequence of exit codes: the outcome is the realtime timeout if a code is 2,
  otherwise the unit error if a code is 1, otherwise success; so with both 2 and 1 present
  the realtime timeout wins.  The outcomes are raised as \<^verbatim>\<open>RealtimeOutedException\<close>
  and \<^verbatim>\<open>ContainerException\<close>.
\<close>

theorem classify_first_match:
  "classify exit_codes =
     (if 2 \<in> set exit_codes then RealtimeTimedOut
      else if 1 \<in> set exit_codes then UnitError else Success)
   \<and> (2 \<in> set exit_codes \<and> 1 \<in> set exit_codes \<longrightarrow> classify exit_codes = RealtimeTimedOut)
   \<and> (outcome_error (classify exit_codes) = Some RealtimeOutedException) = (2 \<in> set exit_codes)
   \<and> (outcome_error (classify exit_codes) = Some (ContainerException ErrorExitCode))
       = (2 \<notin> set exit_codes \<and> 1 \<in> set exit_codes)
   \<and> (outcome_error (classify exit_codes) = None) = (2 \<notin> set exit_codes \<and> 1 \<notin> set exit_codes)"
  by (auto simp add: classify_def EXIT_CODE_REALTIME_OUTED_def list_ex_iff)

theorem classify_first_match_witness:
  "classify [0, 0] = Success \<and> classify [0, 2] = RealtimeTimedOut
   \<and> classify [1, 0] = UnitError \<and> classify [2, 1] = RealtimeTimedOut
   \<and> classify [1, 2] = RealtimeTimedOut \<and> classify [3, 0] = Success"
  using classify_first_match [of "[0, 0]"] classify_first_match [of "[0, 2]"]
    classify_first_match [of "[1, 0]"] classify_first_match [of "[2, 1]"]
    classify_first_match [of "[1, 2]"] classify_first_match [of "[3, 0]"]
  by simp

section \<open>Properties of the launch command\<close>

lemma neq_by_char: "c \<in> set s \<Longrightarrow> c \<notin> set t \<Longrightarrow> s \<noteq> t"
  by auto

lemma colon_not_net [simp]: "a @ CHR '':'' # b \<noteq> ''--net''"
  by (rule neq_by_char [of "CHR '':''"]) simp_all

lemma net_not_colon [simp]: "''--net'' \<noteq> a @ CHR '':'' # b"
  using colon_not_net [of a b] by (simp only: not_sym not_False_eq_True)

lemma container_name_not_net: "container_name_of game i player \<noteq> ''--net''"
  unfolding container_name_of_def
  by (rule neq_by_char [of "CHR ''_''"]) simp_all

lemma net_not_container_name [simp]: "''--net'' \<noteq> container_name_of game i player"
  using container_name_not_net [of game i player] by (rule not_sym)

lemma env_args_not_net:
  "''--net'' \<notin> set (concat (map (\<lambda>(key, value). [''-e'', key @ ''='' @ value]) env))"
proof (induction env)
  case Nil
  then show ?case by simp
next
  case (Cons kv env)
  obtain k v where kv: "kv = (k, v)"
    by (cases kv)
  have "k @ ''='' @ v \<noteq> ''--net''"
    by (rule neq_by_char [of "CHR ''=''"]) simp_all
  with Cons kv show ?case
    by simp
qed

text \<open>
  C9 (amended).  For every list \<^verbatim>\<open>docker_opts\<close> the command is: fourteen fixed leading
  words, then \<^verbatim>\<open>docker_opts\<close> unchanged, then the computed \<^verbatim>\<open>--net sc_net\<close> exactly
  when no element of \<^verbatim>\<open>docker_opts\<close> is the word \<^verbatim>\<open>--net\<close>, then further options,
  the image and the entry point.  No option before the image other than those of the caller
  and the computed one is the word \<^verbatim>\<open>--net\<close>.
\<close>

theorem docker_opts_before_network:
  "\<exists>pre mid rest.
     launch_cmd player nth_player num_players p =
       pre @ docker_opts p
           @ (if ''--net'' \<in> set (docker_opts p) then [] else [''--net'', DOCKER_STARCRAFT_NETWORK])
           @ mid @ docker_image p # rest
     \<and> length pre = 14 \<and> ''--net'' \<notin> set pre \<and> ''--net'' \<notin> set mid"
proof -
  define pre where "pre =
    [''docker'', ''run'', ''-d'', ''--privileged'',
     ''--name'', container_name_of (game_name p) nth_player player,
     ''--volume'', xoscmounts (log_dir p) @ '':'' @ LOG_DIR @ '':rw'',
     ''--volume'', xoscmounts (map_dir p) @ '':'' @ MAP_DIR @ '':rw'',
     ''--volume'', xoscmounts (bwapi_data_bwta_dir p) @ '':'' @ BWAPI_DATA_BWTA_DIR @ '':rw'',
     ''--volume'', xoscmounts (bwapi_data_bwta2_dir p) @ '':'' @ BWAPI_DATA_BWTA2_DIR @ '':rw'']"
  define ports where "ports =
    (if \<not> headless p then [''-p'', str_int (vnc_base_port p + nth_player) @ '':5900''] else [])"
  define bot where "bot =
    (if is_BotPlayer player then
       [''--volume'', xoscmounts (bot_data_write_dir_of (game_name p) nth_player player)
                        @ '':'' @ BOT_DATA_WRITE_DIR @ '':rw'',
        ''--volume'', xoscmounts (bot_dir player) @ '':'' @ BOT_DIR @ '':ro'']
       @ (case javaDebugPort player of None \<Rightarrow> []
          | Some port \<Rightarrow> [''-p'', str_int port @ '':'' @ str_int port])
     else [])"
  define envs where "envs =
    concat (map (\<lambda>(key, value). [''-e'', key @ ''='' @ value])
      (launch_env player nth_player num_players p))"
  define rest where "rest =
    (if is_BotPlayer player then ''/app/play_bot.sh'' else ''/app/play_human.sh'')
      # entrypoint_opts player nth_player p"
  have cmd: "launch_cmd player nth_player num_players p =
       pre @ docker_opts p
           @ (if ''--net'' \<in> set (docker_opts p) then [] else [''--net'', DOCKER_STARCRAFT_NETWORK])
           @ (ports @ bot @ envs) @ docker_image p # rest"
    unfolding launch_cmd_def Let_def pre_def ports_def bot_def envs_def rest_def
    by (simp split: option.splits)
  have pre: "length pre = 14 \<and> ''--net'' \<notin> set pre"
    unfolding pre_def by simp
  have ports: "''--net'' \<notin> set ports"
    unfolding ports_def by simp
  have bot: "''--net'' \<notin> set bot"
    unfolding bot_def by (simp split: option.splits)
  have envs: "''--net'' \<notin> set envs"
    unfolding envs_def by (rule env_args_not_net)
  have "''--net'' \<notin> set (ports @ bot @ envs)"
    using ports bot envs by simp
  with cmd pre show ?thesis
    by blast
qed

theorem docker_opts_before_network_witness:
  "(\<exists>pre mid rest.
      launch_cmd alice 0 1 (example_params\<lparr>docker_opts := [''--rm'', ''--net'', ''host'']\<rparr>) =
        pre @ [''--rm'', ''--net'', ''host''] @ mid @ ''starcraft:game'' # rest
      \<and> length pre = 14 \<and> ''--net'' \<notin> set pre \<and> ''--net'' \<notin> set mid)
   \<and> (\<exists>pre mid rest.
      launch_cmd alice 0 1 (example_params\<lparr>docker_opts := [''--rm'']\<rparr>) =
        pre @ [''--rm'', ''--net'', ''sc_net''] @ mid @ ''starcraft:game'' # rest
      \<and> length pre = 14 \<and> ''--net'' \<notin> set pre \<and> ''--net'' \<notin> set mid)
   \<and> (\<exists>pre mid rest.
      launch_cmd alice 0 1 (example_params\<lparr>docker_opts := [''--hostname'', ''--net'']\<rparr>) =
        pre @ [''--hostname'', ''--net''] @ mid @ ''starcraft:game'' # rest
      \<and> length pre = 14 \<and> ''--net'' \<notin> set pre \<and> ''--net'' \<notin> set mid)"
  using docker_opts_before_network
          [of alice 0 1 "example_params\<lparr>docker_opts := [''--rm'', ''--net'', ''host'']\<rparr>"]
        docker_opts_before_network [of alice 0 1 "example_params\<lparr>docker_opts := [''--rm'']\<rparr>"]
        docker_opts_before_network
          [of alice 0 1 "example_params\<lparr>docker_opts := [''--hostname'', ''--net'']\<rparr>"]
  by (simp add: example_params_def DOCKER_STARCRAFT_NETWORK_def)

text \<open>
  The claim C9 as stated fails: the caller sets the network with \<^verbatim>\<open>--network host\<close> or with
  \<^verbatim>\<open>--net=host\<close>, and the command holds the caller's option followed by the computed
  \<^verbatim>\<open>--net sc_net\<close>.
\<close>

theorem network_option_duplicated_counterexample:
  "take 4 (drop 14 (launch_cmd alice 0 1 (example_params\<lparr>docker_opts := [''--network'', ''host'']\<rparr>)))
     = [''--network'', ''host'', ''--net'', ''sc_net'']
   \<and> take 3 (drop 14 (launch_cmd alice 0 1 (example_params\<lparr>docker_opts := [''--net=host'']\<rparr>)))
     = [''--net=host'', ''--net'', ''sc_net'']"
  by (simp add: launch_cmd_def Let_def example_params_def alice_def DOCKER_STARCRAFT_NETWORK_def)

section \<open>Effects of the operations\<close>

lemma emit_simps [simp]:
  "trace (emit e s) = trace s @ [e]" "calls (emit e s) = calls s" "outputs (emit e s) = outputs s"
  "clocks (emit e s) = clocks s" "waits (emit e s) = waits s"
  by (simp_all add: emit_def)

lemma cleanup_events_simps [simp]:
  "cleanup_events (emit e s) = cleanup_events s @ (if is_cleanup e then [e] else [])"
  "cleanup_events (s\<lparr>calls := a\<rparr>) = cleanup_events s"
  "cleanup_events (s\<lparr>outputs := b\<rparr>) = cleanup_events s"
  "cleanup_events (s\<lparr>clocks := c\<rparr>) = cleanup_events s"
  "cleanup_events (s\<lparr>waits := d\<rparr>) = cleanup_events s"
  by (simp_all add: cleanup_events_def)

lemma is_cleanup_simps [simp]:
  "\<not> is_cleanup (CheckOutputShell c)" "\<not> is_cleanup TimeTime" "\<not> is_cleanup WaitCallback"
  "\<not> is_cleanup (TimeSleep n)" "\<not> is_cleanup (OsRemove f)" "\<not> is_cleanup (OsMakedirs f)"
  "\<not> is_cleanup (LaunchVncViewer h q)" "\<not> is_cleanup (CopyTree a b)"
  by (simp_all add: is_cleanup_def)

lemma running_containers_eq:
  "running_containers rt g s =
     (if fst (output_of rt (outputs s)) \<noteq> 0
      then Inl (CalledProcessError (fst (output_of rt (outputs s))))
      else Inr (containers_of (snd (output_of rt (outputs s)))),
      (emit (CheckOutputShell (docker_ps_command g)) s)\<lparr>outputs := Suc (outputs s)\<rparr>)"
  by (simp add: running_containers_def check_output_of_def Let_def split: prod.splits)

lemma call_wait_callback_eq:
  "call_wait_callback wc s =
     (if wc (waits s) then Inl CallbackRaised else Inr (),
      (emit WaitCallback s)\<lparr>waits := Suc (waits s)\<rparr>)"
  by (simp add: call_wait_callback_def Let_def)

lemma poll_loop_result:
  "poll_loop fuel rt wc g t s = Some (r, s') \<Longrightarrow>
     cleanup_events s' = cleanup_events s
     \<and> (\<forall>cs. r = Inr cs \<longrightarrow> cs = [])
     \<and> (\<forall>e. r = Inl e \<longrightarrow> (\<exists>c. e = CalledProcessError c) \<or> e = CallbackRaised
            \<or> e = ContainerException LingeringContainer)
     \<and> (r = Inl (ContainerException LingeringContainer) \<longrightarrow>
          (\<exists>tr. trace s' = tr @ [CheckOutputShell (docker_ps_command g), TimeTime]))"
proof (induction fuel arbitrary: t s)
  case 0
  then show ?case by simp
next
  case (Suc fuel)
  show ?case
    using Suc.prems Suc.IH
    by (auto simp add: running_containers_eq call_wait_callback_eq time_time_def Let_def
        split: if_splits prod.splits)
qed

lemma launch_cmd_start:
  "\<exists>tail. launch_cmd player i n p = ''docker'' # ''run'' # tail"
  unfolding launch_cmd_def Let_def by (simp split: option.splits)

lemma launch_cmd_not_cleanup [simp]: "\<not> is_cleanup (SubprocessCall (launch_cmd player i n p))"
proof -
  obtain tail where "launch_cmd player i n p = ''docker'' # ''run'' # tail"
    using launch_cmd_start by blast
  then show ?thesis
    by (simp add: is_cleanup_def)
qed

lemma launch_image_eq:
  "launch_image rt player i n p s =
     (let s1 = (if is_BotPlayer player
                then emit (OsMakedirs (bot_data_write_dir_of (game_name p) i player)) s else s);
          s2 = (emit (SubprocessCall (launch_cmd player i n p)) s1)\<lparr>calls := Suc (calls s)\<rparr>;
          s3 = (emit (CheckOutput [''docker'', ''ps'', ''-f'',
                        ''name='' @ container_name_of (game_name p) i player, ''-q'']) s2)
                 \<lparr>outputs := Suc (outputs s)\<rparr>
      in case call_result rt (calls s) of
           RaisedOSError \<Rightarrow> (Inl OSError, s2)
         | RaisedValueError \<Rightarrow> (Inl ValueError, s2)
         | Exited code \<Rightarrow>
             if code \<noteq> 0
             then (Inl (DockerException (CouldNotLaunch (container_name_of (game_name p) i player))), s2)
             else if fst (output_of rt (outputs s)) \<noteq> 0
             then (Inl (CalledProcessError (fst (output_of rt (outputs s)))), s3)
             else (Inr (), s3))"
  by (simp add: launch_image_def subprocess_call_def check_output_of_def Let_def
      split: prod.splits call_result.splits)

lemma docker_ps_not_cleanup [simp]: "\<not> is_cleanup (CheckOutput (''docker'' # ''ps'' # args))"
  by (simp add: is_cleanup_def)

lemma launch_image_result:
  "launch_image rt player i n p s = (r, s') \<Longrightarrow>
     cleanup_events s' = cleanup_events s
     \<and> (\<forall>e. r = Inl e \<longrightarrow> (\<exists>c. e = CalledProcessError c) \<or> e = OSError \<or> e = ValueError
            \<or> (\<exists>m. e = DockerException (CouldNotLaunch m)))"
  by (auto simp add: launch_image_eq Let_def split: if_splits call_result.splits)

lemma launch_players_result:
  "launch_players rt p n i players s = (r, s') \<Longrightarrow>
     cleanup_events s' = cleanup_events s
     \<and> (\<forall>e. r = Inl e \<longrightarrow> (\<exists>c. e = CalledProcessError c) \<or> e = OSError \<or> e = ValueError
            \<or> (\<exists>m. e = DockerException (CouldNotLaunch m)))"
proof (induction players arbitrary: i s)
  case Nil
  then show ?case by auto
next
  case (Cons player players)
  obtain r1 s1 where l: "launch_image rt player i n p s = (r1, s1)"
    by (cases "launch_image rt player i n p s")
  note h = launch_image_result [OF l]
  show ?case
  proof (cases r1)
    case (Inl e)
    with Cons.prems l h show ?thesis by auto
  next
    case (Inr u)
    with Cons.prems l have "launch_players rt p n (i + 1) players s1 = (r, s')"
      by simp
    from Cons.IH [OF this] h show ?thesis by simp
  qed
qed

lemma fold_emit_cleanup:
  "(\<And>x. x \<in> set xs \<Longrightarrow> f x = id \<or> (\<exists>e. f x = emit e \<and> \<not> is_cleanup e)) \<Longrightarrow>
     cleanup_events (fold f xs s) = cleanup_events s"
proof (induction xs arbitrary: s)
  case Nil
  then show ?case by simp
next
  case (Cons x xs)
  have "cleanup_events (f x s) = cleanup_events s"
    using Cons.prems [of x] by auto
  moreover have "cleanup_events (fold f xs (f x s)) = cleanup_events (f x s)"
    using Cons.prems by (intro Cons.IH) auto
  ultimately show ?case by simp
qed

lemma remove_existing_files_cleanup [simp]:
  "cleanup_events (remove_existing_files rt p s) = cleanup_events s"
  unfolding remove_existing_files_def Let_def
  by (rule fold_emit_cleanup) auto

lemma launch_vnc_viewers_cleanup [simp]:
  "cleanup_events (launch_vnc_viewers players p show_all s) = cleanup_events s"
  unfolding launch_vnc_viewers_def
  by (rule fold_emit_cleanup) auto

lemma wait_until_finished_result:
  "wait_until_finished fuel rt wc g s = Some (r, s') \<Longrightarrow>
     cleanup_events s' = cleanup_events s
     \<and> (\<forall>cs. r = Inr cs \<longrightarrow> cs = [])
     \<and> (\<forall>e. r = Inl e \<longrightarrow> (\<exists>c. e = CalledProcessError c) \<or> e = CallbackRaised
            \<or> e = ContainerException LingeringContainer)
     \<and> (r = Inl (ContainerException LingeringContainer) \<longrightarrow>
          (\<exists>tr. trace s' = tr @ [CheckOutputShell (docker_ps_command g), TimeTime]))"
  unfolding wait_until_finished_def time_time_def Let_def
  by (simp only: prod.case) (drule poll_loop_result, simp)

lemma subprocess_call_eq:
  "subprocess_call rt cmd s =
     (case call_result rt (calls s) of
        Exited code \<Rightarrow> Inr code
      | RaisedOSError \<Rightarrow> Inl OSError
      | RaisedValueError \<Rightarrow> Inl ValueError,
      s\<lparr>trace := trace s @ [SubprocessCall cmd], calls := Suc (calls s)\<rparr>)"
  by (simp add: subprocess_call_def emit_def)

lemma cleanup_containers_eq:
  "cleanup_containers rt containers s =
     (if containers = [] then (Inr (), s)
      else (case call_result rt (calls s) of
              Exited code \<Rightarrow> Inr ()
            | RaisedOSError \<Rightarrow> Inl OSError
            | RaisedValueError \<Rightarrow> Inl ValueError,
            s\<lparr>trace := trace s @ [SubprocessCall (''docker'' # ''rm'' # containers)],
              calls := Suc (calls s)\<rparr>))"
  by (simp add: cleanup_containers_def subprocess_call_eq split: call_result.splits)

lemma stop_containers_eq:
  "stop_containers rt containers s =
     (if containers = [] then (Inr (), s)
      else if \<not> stderr_buffer rt then (Inl AttributeError, s)
      else (case call_result rt (calls s) of
              Exited code \<Rightarrow> Inr ()
            | RaisedOSError \<Rightarrow> Inl OSError
            | RaisedValueError \<Rightarrow> Inl ValueError,
            s\<lparr>trace := trace s @ [SubprocessCall (''docker'' # ''stop'' # containers)],
              calls := Suc (calls s)\<rparr>))"
  by (simp add: stop_containers_def subprocess_call_eq split: call_result.splits)

lemma finish_game_empty:
  "finish_game rt players p ro start [] s =
     (case cleanup_containers rt start s of
        (Inl e, s1) \<Rightarrow> (Inl e, s1)
      | (Inr u, s1) \<Rightarrow> (Inr (), if ro then overwrite_bot_files players p s1 else s1))"
  by (simp add: finish_game_def classify_def split: prod.splits sum.splits)

section \<open>Properties of stopping and removing\<close>

text \<open>
  C8 (amended).  With no container names, \<^verbatim>\<open>stop_containers\<close> and
  \<^verbatim>\<open>cleanup_containers\<close> return without any call to the runtime: the state, with its
  trace of events, is unchanged.  With names, each runs one command; when the command exits,
  its completion status, whatever it is, is dropped and the function returns normally.  An
  exception raised by the call itself is not caught: \<^verbatim>\<open>OSError\<close> and
  \<^verbatim>\<open>ValueError\<close> reach the caller, and so does the \<^verbatim>\<open>AttributeError\<close> of
  \<^verbatim>\<open>stop_containers\<close> when the standard error stream has no buffer, in which case no
  command is run.
\<close>

theorem cleanup_drops_status_only:
  "stop_containers rt [] s = (Inr (), s)
   \<and> cleanup_containers rt [] s = (Inr (), s)
   \<and> (containers \<noteq> [] \<longrightarrow>
        cleanup_containers rt containers s =
          (case call_result rt (calls s) of
             Exited code \<Rightarrow> Inr ()
           | RaisedOSError \<Rightarrow> Inl OSError
           | RaisedValueError \<Rightarrow> Inl ValueError,
           s\<lparr>trace := trace s @ [SubprocessCall (''docker'' # ''rm'' # containers)],
             calls := Suc (calls s)\<rparr>))
   \<and> (containers \<noteq> [] \<and> stderr_buffer rt \<longrightarrow>
        stop_containers rt containers s =
          (case call_result rt (calls s) of
             Exited code \<Rightarrow> Inr ()
           | RaisedOSError \<Rightarrow> Inl OSError
           | RaisedValueError \<Rightarrow> Inl ValueError,
           s\<lparr>trace := trace s @ [SubprocessCall (''docker'' # ''stop'' # containers)],
             calls := Suc (calls s)\<rparr>))
   \<and> (containers \<noteq> [] \<and> \<not> stderr_buffer rt \<longrightarrow>
        stop_containers rt containers s = (Inl AttributeError, s))"
  by (simp add: stop_containers_eq cleanup_containers_eq)

theorem cleanup_drops_status_only_witness:
  "call_result failing_runtime 0 = Exited 1
   \<and> stop_containers failing_runtime [] initial = (Inr (), initial)
   \<and> cleanup_containers failing_runtime [] initial = (Inr (), initial)
   \<and> cleanup_containers failing_runtime [''c1'', ''c2''] initial =
       (Inr (), \<lparr>trace = [SubprocessCall [''docker'', ''rm'', ''c1'', ''c2'']],
                 calls = 1, outputs = 0, clocks = 0, waits = 0\<rparr>)
   \<and> stop_containers failing_runtime [''c1'', ''c2''] initial =
       (Inr (), \<lparr>trace = [SubprocessCall [''docker'', ''stop'', ''c1'', ''c2'']],
                 calls = 1, outputs = 0, clocks = 0, waits = 0\<rparr>)
   \<and> stop_containers (failing_runtime\<lparr>stderr_buffer := False\<rparr>) [''c1'', ''c2''] initial =
       (Inl AttributeError, initial)"
  using cleanup_drops_status_only [of failing_runtime initial "[''c1'', ''c2'']"]
    cleanup_drops_status_only
      [of "failing_runtime\<lparr>stderr_buffer := False\<rparr>" initial "[''c1'', ''c2'']"]
  by (simp add: failing_runtime_def initial_def)

text \<open>
  The claim C8 as stated fails: with a container name and a runtime in which the process
  cannot be spawned, both functions raise \<^verbatim>\<open>OSError\<close>.
\<close>

theorem cleanup_raises_counterexample:
  "cleanup_containers spawnless_runtime [''c1''] initial =
     (Inl OSError, \<lparr>trace = [SubprocessCall [''docker'', ''rm'', ''c1'']],
                     calls = 1, outputs = 0, clocks = 0, waits = 0\<rparr>)
   \<and> stop_containers spawnless_runtime [''c1''] initial =
     (Inl OSError, \<lparr>trace = [SubprocessCall [''docker'', ''stop'', ''c1'']],
                     calls = 1, outputs = 0, clocks = 0, waits = 0\<rparr>)"
  by (simp add: stop_containers_eq cleanup_containers_eq spawnless_runtime_def initial_def)

section \<open>Properties of \<^verbatim>\<open>launch_image\<close>\<close>

lemma launch_image_fst:
  "fst (launch_image rt player i n p s) =
     (case call_result rt (calls s) of
        RaisedOSError \<Rightarrow> Inl OSError
      | RaisedValueError \<Rightarrow> Inl ValueError
      | Exited code \<Rightarrow>
          if code \<noteq> 0
          then Inl (DockerException (CouldNotLaunch (container_name_of (game_name p) i player)))
          else if fst (output_of rt (outputs s)) \<noteq> 0
          then Inl (CalledProcessError (fst (output_of rt (outputs s))))
          else Inr ())"
  by (simp add: launch_image_eq Let_def split: call_result.splits)

text \<open>
  C3 (amended).  \<^verbatim>\<open>launch_image\<close> raises \<^verbatim>\<open>DockerException\<close> exactly when the
  create-and-start command ends with a nonzero status.  With status zero it returns normally
  whatever text the lookup by name prints, also when it prints nothing; only a lookup command
  that itself ends with a nonzero status raises, and what it raises is
  \<^verbatim>\<open>CalledProcessError\<close>.  When the create-and-start call raises instead of ending
  with a status, that exception reaches the caller.
\<close>

theorem launch_image_failure:
  "((\<exists>m. fst (launch_image rt player i n p s) = Inl (DockerException m))
      = (\<exists>code. call_result rt (calls s) = Exited code \<and> code \<noteq> 0))
   \<and> (call_result rt (calls s) = Exited code \<and> code \<noteq> 0 \<longrightarrow>
        fst (launch_image rt player i n p s) =
          Inl (DockerException (CouldNotLaunch (container_name_of (game_name p) i player))))
   \<and> (call_result rt (calls s) = Exited 0 \<and> fst (output_of rt (outputs s)) = 0 \<longrightarrow>
        fst (launch_image rt player i n p s) = Inr ())
   \<and> (call_result rt (calls s) = Exited 0 \<and> fst (output_of rt (outputs s)) \<noteq> 0 \<longrightarrow>
        fst (launch_image rt player i n p s) =
          Inl (CalledProcessError (fst (output_of rt (outputs s)))))
   \<and> (call_result rt (calls s) = RaisedOSError \<longrightarrow>
        fst (launch_image rt player i n p s) = Inl OSError)
   \<and> (call_result rt (calls s) = RaisedValueError \<longrightarrow>
        fst (launch_image rt player i n p s) = Inl ValueError)"
  by (auto simp add: launch_image_fst split: call_result.splits)

theorem launch_image_failure_witness:
  "call_result failing_runtime (calls initial) = Exited 1
   \<and> fst (launch_image failing_runtime alice 0 1 example_params initial) =
       Inl (DockerException (CouldNotLaunch ''m1_0_alice''))
   \<and> call_result unfound_runtime (calls initial) = Exited 0
   \<and> output_of unfound_runtime (outputs initial) = (0, [])
   \<and> fst (launch_image unfound_runtime alice 0 1 example_params initial) = Inr ()
   \<and> fst (launch_image lookup_failing_runtime alice 0 1 example_params initial) =
       Inl (CalledProcessError 125)
   \<and> fst (launch_image spawnless_runtime alice 0 1 example_params initial) = Inl OSError"
proof -
  have n: "container_name_of (game_name example_params) 0 alice = ''m1_0_alice''"
    by (simp add: container_name_of_def example_params_def alice_def str_int_def
        str_nat.simps digit_char_def replace_spaces_def)
  show ?thesis
    using launch_image_failure [of failing_runtime alice 0 1 example_params initial 1]
      launch_image_failure [of unfound_runtime alice 0 1 example_params initial]
      launch_image_failure [of lookup_failing_runtime alice 0 1 example_params initial]
      launch_image_failure [of spawnless_runtime alice 0 1 example_params initial]
    by (simp add: n failing_runtime_def unfound_runtime_def lookup_failing_runtime_def
        spawnless_runtime_def initial_def)
qed

text \<open>
  The claim C3 as stated fails: the container starts, the lookup by name finds nothing, and
  \<^verbatim>\<open>launch_image\<close> returns normally.
\<close>

theorem launch_image_unfound_counterexample:
  "call_result unfound_runtime 0 = Exited 0
   \<and> containers_of (snd (output_of unfound_runtime 0)) = []
   \<and> launch_image unfound_runtime alice 0 1 example_params initial =
       (Inr (), \<lparr>trace = [SubprocessCall (launch_cmd alice 0 1 example_params),
                          CheckOutput [''docker'', ''ps'', ''-f'', ''name=m1_0_alice'', ''-q'']],
                 calls = 1, outputs = 1, clocks = 0, waits = 0\<rparr>)"
proof -
  have n: "container_name_of (game_name example_params) 0 alice = ''m1_0_alice''"
    by (simp add: container_name_of_def example_params_def alice_def str_int_def
        str_nat.simps digit_char_def replace_spaces_def)
  have c: "containers_of [] = []"
    by (simp add: containers_of_def)
  have a: "\<not> is_BotPlayer alice"
    by (simp add: alice_def)
  show ?thesis
    by (simp add: launch_image_eq Let_def n c a unfound_runtime_def initial_def emit_def)
qed

section \<open>What a run of \<^verbatim>\<open>launch_game\<close> can end in\<close>

lemma inspect_of_cleanup:
  "filter is_inspect (trace s) = filter is_inspect (cleanup_events s)"
  by (auto simp add: cleanup_events_def is_cleanup_def intro: filter_cong)

lemma fold_filter_trace:
  "(\<And>x s. x \<in> set xs \<Longrightarrow> filter P (trace (f x s)) = filter P (trace s)) \<Longrightarrow>
     filter P (trace (fold f xs s)) = filter P (trace s)"
  by (induction xs arbitrary: s) simp_all

lemma overwrite_bot_files_inspect [simp]:
  "filter is_inspect (trace (overwrite_bot_files players p s)) = filter is_inspect (trace s)"
  unfolding overwrite_bot_files_def
  by (rule fold_filter_trace) (simp split: prod.splits)

lemma cleanup_containers_inspect [simp]:
  "filter is_inspect (trace (snd (cleanup_containers rt cs s))) = filter is_inspect (trace s)"
  by (simp add: cleanup_containers_eq)

lemma finish_game_empty_result:
  assumes "finish_game rt players p ro start [] s = (r, s')"
  shows "(r = Inr () \<or> r = Inl OSError \<or> r = Inl ValueError)
     \<and> filter is_inspect (trace s') = filter is_inspect (trace s)"
proof -
  obtain r1 s1 where c: "cleanup_containers rt start s = (r1, s1)"
    by (cases "cleanup_containers rt start s")
  have i: "filter is_inspect (trace s1) = filter is_inspect (trace s)"
    using cleanup_containers_inspect [of rt start s] by (simp add: c)
  have e: "r1 = Inr () \<or> r1 = Inl OSError \<or> r1 = Inl ValueError"
    using c by (auto simp add: cleanup_containers_eq split: if_splits call_result.splits)
  from assms c i e show ?thesis
    by (auto simp add: finish_game_empty)
qed

lemma monitor_game_result:
  assumes "monitor_game fuel rt players p show_all ro wc s = Some (r, s')"
  shows "r \<noteq> Inl RealtimeOutedException \<and> r \<noteq> Inl (ContainerException ErrorExitCode)
     \<and> filter is_inspect (trace s') = filter is_inspect (trace s)
     \<and> (r = Inl (DockerException ExitedPrematurely) \<longrightarrow>
          fst (output_of rt (outputs s)) = 0
          \<and> length (containers_of (snd (output_of rt (outputs s)))) \<noteq> length players)
     \<and> (r = Inl (ContainerException LingeringContainer) \<longrightarrow>
          cleanup_events s' = cleanup_events s
          \<and> (\<exists>tr. trace s' = tr @ [CheckOutputShell (docker_ps_command (game_name p)), TimeTime]))"
proof -
  define s2 where
    "s2 = (emit (CheckOutputShell (docker_ps_command (game_name p))) (emit (TimeSleep 1) s))
            \<lparr>outputs := Suc (outputs s)\<rparr>"
  define s3 where
    "s3 = (if \<not> headless p then launch_vnc_viewers players p show_all s2 else s2)"
  define start where "start = containers_of (snd (output_of rt (outputs s)))"
  have c2: "cleanup_events s2 = cleanup_events s"
    by (simp add: s2_def)
  have c3: "cleanup_events s3 = cleanup_events s"
    by (simp add: s3_def c2)
  have i2: "filter is_inspect (trace s2) = filter is_inspect (trace s)"
    by (simp add: s2_def)
  consider
    (ps_failed) "fst (output_of rt (outputs s)) \<noteq> 0"
  | (incomplete) "fst (output_of rt (outputs s)) = 0"
      "length (containers_of (snd (output_of rt (outputs s)))) \<noteq> length players"
  | (complete) "fst (output_of rt (outputs s)) = 0"
      "length (containers_of (snd (output_of rt (outputs s)))) = length players"
    by blast
  then show ?thesis
  proof cases
    case ps_failed
    with assms have "r = Inl (CalledProcessError (fst (output_of rt (outputs s))))" "s' = s2"
      by (simp_all add: monitor_game_def running_containers_eq Let_def s2_def)
    with i2 show ?thesis by simp
  next
    case incomplete
    with assms have "r = Inl (DockerException ExitedPrematurely)" "s' = s2"
      by (simp_all add: monitor_game_def running_containers_eq Let_def s2_def)
    with i2 incomplete show ?thesis by simp
  next
    case complete
    with assms have m:
      "(case wait_until_finished fuel rt wc (game_name p) s3 of
          None \<Rightarrow> None
        | Some (Inl e, s) \<Rightarrow> Some (Inl e, s)
        | Some (Inr containers, s) \<Rightarrow>
            Some (finish_game rt players p ro start containers s)) = Some (r, s')"
      unfolding start_def
      by (auto simp add: monitor_game_def running_containers_eq Let_def s2_def s3_def
          split: if_splits)
    then obtain r0 s4 where w: "wait_until_finished fuel rt wc (game_name p) s3 = Some (r0, s4)"
      by (cases "wait_until_finished fuel rt wc (game_name p) s3") auto
    note h = wait_until_finished_result [OF w]
    from h have c4: "cleanup_events s4 = cleanup_events s"
      by (simp add: c3)
    then have i4: "filter is_inspect (trace s4) = filter is_inspect (trace s)"
      by (simp add: inspect_of_cleanup)
    show ?thesis
    proof (cases r0)
      case (Inl e)
      with m w have "r = Inl e" "s' = s4"
        by simp_all
      with h Inl c4 i4 show ?thesis
        by auto
    next
      case (Inr cs)
      with h have "cs = []"
        by simp
      with m w Inr have "(r, s') = finish_game rt players p ro start [] s4"
        by simp
      then have "finish_game rt players p ro start [] s4 = (r, s')"
        by simp
      from finish_game_empty_result [OF this] i4 show ?thesis
        by auto
    qed
  qed
qed

lemma launch_game_result:
  assumes "launch_game fuel rt players p show_all ro wc s = Some (r, s')"
  shows "r \<noteq> Inl RealtimeOutedException \<and> r \<noteq> Inl (ContainerException ErrorExitCode)
     \<and> filter is_inspect (trace s') = filter is_inspect (trace s)
     \<and> (r = Inl (ContainerException LingeringContainer) \<longrightarrow>
          cleanup_events s' = cleanup_events s
          \<and> (\<exists>tr. trace s' = tr @ [CheckOutputShell (docker_ps_command (game_name p)), TimeTime]))"
proof (cases "length players = 0")
  case True
  with assms show ?thesis
    by (auto simp add: launch_game_def)
next
  case False
  obtain r1 s1 where l:
    "launch_players rt p (int (length players)) 0 players (remove_existing_files rt p s) = (r1, s1)"
    by (cases "launch_players rt p (int (length players)) 0 players (remove_existing_files rt p s)")
  from launch_players_result [OF l]
  have c1: "cleanup_events s1 = cleanup_events s"
    and e1: "\<forall>e. r1 = Inl e \<longrightarrow>
       (\<exists>c. e = CalledProcessError c) \<or> e = OSError \<or> e = ValueError
       \<or> (\<exists>m. e = DockerException (CouldNotLaunch m))"
    by simp_all
  from c1 have i1: "filter is_inspect (trace s1) = filter is_inspect (trace s)"
    by (simp add: inspect_of_cleanup)
  show ?thesis
  proof (cases r1)
    case (Inl e)
    with assms False l have "r = Inl e" "s' = s1"
      by (simp_all add: launch_game_def Let_def)
    with e1 Inl i1 show ?thesis
      by auto
  next
    case (Inr u)
    with assms False l have "monitor_game fuel rt players p show_all ro wc s1 = Some (r, s')"
      by (simp add: launch_game_def Let_def)
    from monitor_game_result [OF this] c1 i1 show ?thesis
      by simp
  qed
qed

section \<open>The scenarios, run\<close>

lemma containers_of_examples:
  "containers_of [] = []"
  "containers_of [CHR ''c'', CHR ''1'', newline] = [''c1'']"
  "containers_of [CHR ''c'', CHR ''1'', newline, CHR ''c'', CHR ''2'', newline] = [''c1'', ''c2'']"
  by (simp_all add: containers_of_def strip_chars_def whitespace_def)


lemma peer_exit_runtime_simps:
  "call_result peer_exit_runtime n = Exited 0"
  "output_of peer_exit_runtime n =
     (if n < 2 then (0, [CHR ''c'', CHR ''1'', newline])
      else if n < 4 then (0, [CHR ''c'', CHR ''1'', newline, CHR ''c'', CHR ''2'', newline])
      else (0, [CHR ''c'', CHR ''1'', newline]))"
  "clock peer_exit_runtime n = (if n = 0 then 0 else if n = 1 then 1 else 30)"
  by (simp_all add: peer_exit_runtime_def)

lemma realtime_outed_runtime_simps:
  "call_result realtime_outed_runtime n = Exited 0"
  "output_of realtime_outed_runtime n =
     (if n < 2 then (0, [CHR ''c'', CHR ''1'', newline])
      else if n < 4 then (0, [CHR ''c'', CHR ''1'', newline, CHR ''c'', CHR ''2'', newline])
      else if n = 4 then (0, [])
      else (0, [CHR 0x27, CHR ''2'', CHR 0x27, newline]))"
  by (simp_all add: realtime_outed_runtime_def)

lemma scenario_simps:
  "\<not> is_BotPlayer alice" "\<not> is_BotPlayer bob" "headless example_params"
  "game_name example_params = ''m1''"
  "remove_existing_files lingering_runtime example_params s = s"
  "remove_existing_files realtime_outed_runtime example_params s = s"
  "remove_existing_files peer_exit_runtime example_params s = s"
  by (simp_all add: alice_def bob_def example_params_def remove_existing_files_def
      lingering_runtime_def realtime_outed_runtime_def peer_exit_runtime_def no_files_def)

lemma finished_run:
  "launch_game (Suc (Suc 0)) realtime_outed_runtime [alice, bob] example_params False False
       never_raises initial
     = Some (Inr (),
         \<lparr>trace = [SubprocessCall (launch_cmd alice 0 2 example_params),
                   CheckOutput [''docker'', ''ps'', ''-f'', ''name='' @ container_name_of ''m1'' 0 alice, ''-q''],
                   SubprocessCall (launch_cmd bob 1 2 example_params),
                   CheckOutput [''docker'', ''ps'', ''-f'', ''name='' @ container_name_of ''m1'' 1 bob, ''-q''],
                   TimeSleep 1,
                   CheckOutputShell (docker_ps_command ''m1''),
                   TimeTime,
                   CheckOutputShell (docker_ps_command ''m1''),
                   TimeTime,
                   WaitCallback,
                   CheckOutputShell (docker_ps_command ''m1''),
                   SubprocessCall [''docker'', ''rm'', ''c1'', ''c2'']],
           calls = 3, outputs = 5, clocks = 2, waits = 1\<rparr>)"
  by (simp add: launch_game_def monitor_game_def wait_until_finished_def launch_image_eq
      running_containers_eq time_time_def call_wait_callback_eq Let_def scenario_simps
      containers_of_examples realtime_outed_runtime_simps initial_def emit_def
      finish_game_empty cleanup_containers_eq never_raises_def
      MAX_TIME_RUNNING_SINGLE_CONTAINER_def)

lemma container_names:
  "container_name_of ''m1'' 0 alice = ''m1_0_alice''"
  "container_name_of ''m1'' 1 bob = ''m1_1_bob''"
  by (simp_all add: container_name_of_def alice_def bob_def str_int_def str_nat.simps
      digit_char_def replace_spaces_def)

lemma peer_exit_run:
  "launch_game (Suc (Suc 0)) peer_exit_runtime [alice, bob] example_params False False
       never_raises initial
     = Some (Inl (ContainerException LingeringContainer),
         \<lparr>trace = [SubprocessCall (launch_cmd alice 0 2 example_params),
                   CheckOutput [''docker'', ''ps'', ''-f'', ''name=m1_0_alice'', ''-q''],
                   SubprocessCall (launch_cmd bob 1 2 example_params),
                   CheckOutput [''docker'', ''ps'', ''-f'', ''name=m1_1_bob'', ''-q''],
                   TimeSleep 1,
                   CheckOutputShell (docker_ps_command ''m1''),
                   TimeTime,
                   CheckOutputShell (docker_ps_command ''m1''),
                   TimeTime,
                   WaitCallback,
                   CheckOutputShell (docker_ps_command ''m1''),
                   TimeTime],
           calls = 2, outputs = 5, clocks = 3, waits = 1\<rparr>)"
  by (simp add: launch_game_def monitor_game_def wait_until_finished_def launch_image_eq
      running_containers_eq time_time_def call_wait_callback_eq Let_def scenario_simps
      containers_of_examples peer_exit_runtime_simps initial_def emit_def container_names
      never_raises_def MAX_TIME_RUNNING_SINGLE_CONTAINER_def)

section \<open>Properties of the monitor\<close>




lemma poll_loop_lone_unit:
  assumes "\<forall>j\<le>k. fst (output_of rt (outputs s + j)) = 0
             \<and> length (containers_of (snd (output_of rt (outputs s + j)))) = 1"
    and "\<forall>j<k. clock rt (clocks s + j) - t \<le> MAX_TIME_RUNNING_SINGLE_CONTAINER"
    and "clock rt (clocks s + k) - t > MAX_TIME_RUNNING_SINGLE_CONTAINER"
    and "\<forall>j<k. \<not> wc (waits s + j)"
  shows "poll_loop fuel rt wc g t s =
     (if k < fuel
      then Some (Inl (ContainerException LingeringContainer),
             \<lparr>trace = trace s @ polls g k @ [CheckOutputShell (docker_ps_command g), TimeTime],
              calls = calls s, outputs = outputs s + k + 1, clocks = clocks s + k + 1,
              waits = waits s + k\<rparr>)
      else None)"
  using assms
proof (induction k arbitrary: s fuel)
  case 0
  show ?case
  proof (cases fuel)
    case 0
    then show ?thesis by simp
  next
    case (Suc f)
    with "0.prems" show ?thesis
      by (simp add: running_containers_eq time_time_def Let_def polls_def emit_def)
  qed
next
  case (Suc k)
  show ?case
  proof (cases fuel)
    case 0
    then show ?thesis by simp
  next
    case fuel: (Suc f)
    define s' where
      "s' = (emit WaitCallback ((emit TimeTime ((emit (CheckOutputShell (docker_ps_command g)) s)
                \<lparr>outputs := Suc (outputs s)\<rparr>))\<lparr>clocks := Suc (clocks s)\<rparr>))
              \<lparr>waits := Suc (waits s)\<rparr>"
    have f: "outputs s' = Suc (outputs s)" "clocks s' = Suc (clocks s)"
      "waits s' = Suc (waits s)" "calls s' = calls s"
      "trace s' = trace s @ [CheckOutputShell (docker_ps_command g), TimeTime, WaitCallback]"
      by (simp_all add: s'_def)
    have here: "fst (output_of rt (outputs s)) = 0"
      "length (containers_of (snd (output_of rt (outputs s)))) = 1"
      "\<not> clock rt (clocks s) - t > MAX_TIME_RUNNING_SINGLE_CONTAINER"
      "\<not> wc (waits s)"
      using Suc.prems(1) [rule_format, of 0] Suc.prems(2) [rule_format, of 0]
        Suc.prems(4) [rule_format, of 0]
      by simp_all
    have step: "poll_loop fuel rt wc g t s = poll_loop f rt wc g t s'"
      using here by (simp add: fuel running_containers_eq call_wait_callback_eq time_time_def
          Let_def s'_def)
    have 1: "\<forall>j\<le>k. fst (output_of rt (outputs s' + j)) = 0
               \<and> length (containers_of (snd (output_of rt (outputs s' + j)))) = 1"
      using Suc.prems(1) by (auto simp add: f dest: spec [of _ "Suc j" for j])
    have 2: "\<forall>j<k. clock rt (clocks s' + j) - t \<le> MAX_TIME_RUNNING_SINGLE_CONTAINER"
      using Suc.prems(2) by (auto simp add: f dest: spec [of _ "Suc j" for j])
    have 3: "clock rt (clocks s' + k) - t > MAX_TIME_RUNNING_SINGLE_CONTAINER"
      using Suc.prems(3) by (simp add: f)
    have 4: "\<forall>j<k. \<not> wc (waits s' + j)"
      using Suc.prems(4) by (auto simp add: f dest: spec [of _ "Suc j" for j])
    show ?thesis
      unfolding step Suc.IH [OF 1 2 3 4]
      by (simp add: fuel f polls_def)
  qed
qed

text \<open>
  C10.  The time stamp \<^verbatim>\<open>running_time\<close> starts as the clock reading taken on entry to the
  loop, \<open>clock rt (clocks s)\<close>, and only a poll that sees two or more containers renews it.
  So when every poll sees exactly one container, and the callback returns, the loop goes on
  for as long as the clock reads no more than 20 seconds past the entry reading, and the
  first poll that reads more than 20 seconds past it raises the lingering-container
  exception, although no second container was ever seen.  With that poll the \<open>k + 1\<close>-th,
  the loop has not ended within \<open>k\<close> iterations, and it ends in the \<open>k + 1\<close>-th with the
  exception, after \<open>k + 1\<close> listings, \<open>k + 2\<close> clock readings and \<open>k\<close> callbacks.
\<close>

theorem lone_unit_lingers:
  assumes "\<forall>j\<le>k. fst (output_of rt (outputs s + j)) = 0
             \<and> length (containers_of (snd (output_of rt (outputs s + j)))) = 1"
    and "\<forall>j<k. clock rt (clocks s + 1 + j) - clock rt (clocks s) \<le> 20"
    and "clock rt (clocks s + 1 + k) - clock rt (clocks s) > 20"
    and "\<forall>j<k. \<not> wait_callback (waits s + j)"
  shows "wait_until_finished fuel rt wait_callback game s =
     (if k < fuel
      then Some (Inl (ContainerException LingeringContainer),
             \<lparr>trace = trace s @ [TimeTime] @ polls game k
                        @ [CheckOutputShell (docker_ps_command game), TimeTime],
              calls = calls s, outputs = outputs s + k + 1, clocks = clocks s + k + 2,
              waits = waits s + k\<rparr>)
      else None)"
proof -
  define s0 where "s0 = (emit TimeTime s)\<lparr>clocks := Suc (clocks s)\<rparr>"
  have w: "wait_until_finished fuel rt wait_callback game s
             = poll_loop fuel rt wait_callback game (clock rt (clocks s)) s0"
    by (simp add: wait_until_finished_def time_time_def s0_def)
  have f: "outputs s0 = outputs s" "clocks s0 = Suc (clocks s)" "waits s0 = waits s"
    "calls s0 = calls s" "trace s0 = trace s @ [TimeTime]"
    by (simp_all add: s0_def)
  have 1: "\<forall>j\<le>k. fst (output_of rt (outputs s0 + j)) = 0
             \<and> length (containers_of (snd (output_of rt (outputs s0 + j)))) = 1"
    using assms(1) by (simp add: f)
  have 2: "\<forall>j<k. clock rt (clocks s0 + j) - clock rt (clocks s)
             \<le> MAX_TIME_RUNNING_SINGLE_CONTAINER"
    using assms(2) by (simp add: f MAX_TIME_RUNNING_SINGLE_CONTAINER_def)
  have 3: "clock rt (clocks s0 + k) - clock rt (clocks s) > MAX_TIME_RUNNING_SINGLE_CONTAINER"
    using assms(3) by (simp add: f MAX_TIME_RUNNING_SINGLE_CONTAINER_def)
  have 4: "\<forall>j<k. \<not> wait_callback (waits s0 + j)"
    using assms(4) by (simp add: f)
  show ?thesis
    unfolding w poll_loop_lone_unit [OF 1 2 3 4]
    by (simp add: f)
qed

theorem lone_unit_lingers_witness:
  "wait_until_finished 2 ticking_runtime never_raises ''m1'' initial =
     Some (Inl (ContainerException LingeringContainer),
       \<lparr>trace = [TimeTime,
                 CheckOutputShell (docker_ps_command ''m1''), TimeTime, WaitCallback,
                 CheckOutputShell (docker_ps_command ''m1''), TimeTime],
        calls = 0, outputs = 2, clocks = 3, waits = 1\<rparr>)
   \<and> wait_until_finished 1 ticking_runtime never_raises ''m1'' initial = None
   \<and> clock ticking_runtime 1 - clock ticking_runtime 0 = 15
   \<and> clock ticking_runtime 2 - clock ticking_runtime 0 = 30
   \<and> length (containers_of (snd (output_of ticking_runtime 0))) = 1
   \<and> length (containers_of (snd (output_of ticking_runtime 1))) = 1"
proof -
  have c: "clock ticking_runtime n = 15 * real n"
    and o: "output_of ticking_runtime n = (0, [CHR ''c'', CHR ''1'', newline])" for n
    by (simp_all add: ticking_runtime_def)
  have 1: "\<forall>j\<le>1. fst (output_of ticking_runtime (outputs initial + j)) = 0
      \<and> length (containers_of (snd (output_of ticking_runtime (outputs initial + j)))) = 1"
    by (simp add: o containers_of_examples)
  have 2: "\<forall>j<1. clock ticking_runtime (clocks initial + 1 + j)
      - clock ticking_runtime (clocks initial) \<le> 20"
    by (simp add: c initial_def)
  have 3: "clock ticking_runtime (clocks initial + 1 + 1)
      - clock ticking_runtime (clocks initial) > 20"
    by (simp add: c initial_def)
  have 4: "\<forall>j<1. \<not> never_raises (waits initial + j)"
    by (simp add: never_raises_def)
  from lone_unit_lingers [OF 1 2 3 4, of 2 "''m1''"] lone_unit_lingers [OF 1 2 3 4, of 1 "''m1''"]
  show ?thesis
    by (simp add: c o containers_of_examples polls_def initial_def)
qed

text \<open>
  C2 (the code departs from the claim).  Two players; both containers are seen by the check
  after the settle delay and by the first poll, at which the clock reads 1; the second poll
  sees the first container alone and the clock reads 30.  \<^verbatim>\<open>launch_game\<close> raises the
  lingering-container exception straight from that poll: the trace ends with the listing and
  the clock reading, and holds no \<^verbatim>\<open>docker inspect\<close>, \<^verbatim>\<open>docker stop\<close> or
  \<^verbatim>\<open>docker rm\<close>, although the comments of the module say that the container is
  stopped as well and that containers are removed before an exception is thrown.
\<close>

theorem lingering_unit_not_cleaned_up:
  "launch_game 2 peer_exit_runtime [alice, bob] example_params False False never_raises initial
     = Some (Inl (ContainerException LingeringContainer),
         \<lparr>trace = [SubprocessCall (launch_cmd alice 0 2 example_params),
                   CheckOutput [''docker'', ''ps'', ''-f'', ''name=m1_0_alice'', ''-q''],
                   SubprocessCall (launch_cmd bob 1 2 example_params),
                   CheckOutput [''docker'', ''ps'', ''-f'', ''name=m1_1_bob'', ''-q''],
                   TimeSleep 1,
                   CheckOutputShell (docker_ps_command ''m1''),
                   TimeTime,
                   CheckOutputShell (docker_ps_command ''m1''),
                   TimeTime,
                   WaitCallback,
                   CheckOutputShell (docker_ps_command ''m1''),
                   TimeTime],
           calls = 2, outputs = 5, clocks = 3, waits = 1\<rparr>)
   \<and> containers_of (snd (output_of peer_exit_runtime 3)) = [''c1'', ''c2'']
   \<and> containers_of (snd (output_of peer_exit_runtime 4)) = [''c1'']
   \<and> clock peer_exit_runtime 2 - clock peer_exit_runtime 1 = 29
   \<and> cleanup_events (final_state (launch_game 2 peer_exit_runtime [alice, bob] example_params
         False False never_raises initial)) = []"
proof -
  have two: "(2::nat) = Suc (Suc 0)"
    by simp
  show ?thesis
    unfolding two peer_exit_run
    by (simp add: peer_exit_runtime_simps containers_of_examples final_state_def
        cleanup_events_def)
qed

text \<open>
  C1 (the code departs from the claim).  Two players; both containers are seen by the check
  after the settle delay and by the first poll, the second poll sees none and the loop ends.
  Both containers would report the exit code 2, which classifies as the realtime timeout.
  \<^verbatim>\<open>launch_game\<close> reads the exit codes of the containers of the last poll, of which there
  are none: no \<^verbatim>\<open>docker inspect\<close> is run, the two containers are removed, and the call
  returns normally.
\<close>

theorem finished_match_reads_no_exit_code:
  "launch_game 2 realtime_outed_runtime [alice, bob] example_params False False
       never_raises initial
     = Some (Inr (),
         \<lparr>trace = [SubprocessCall (launch_cmd alice 0 2 example_params),
                   CheckOutput [''docker'', ''ps'', ''-f'', ''name=m1_0_alice'', ''-q''],
                   SubprocessCall (launch_cmd bob 1 2 example_params),
                   CheckOutput [''docker'', ''ps'', ''-f'', ''name=m1_1_bob'', ''-q''],
                   TimeSleep 1,
                   CheckOutputShell (docker_ps_command ''m1''),
                   TimeTime,
                   CheckOutputShell (docker_ps_command ''m1''),
                   TimeTime,
                   WaitCallback,
                   CheckOutputShell (docker_ps_command ''m1''),
                   SubprocessCall [''docker'', ''rm'', ''c1'', ''c2'']],
           calls = 3, outputs = 5, clocks = 2, waits = 1\<rparr>)
   \<and> containers_of (snd (output_of realtime_outed_runtime 3)) = [''c1'', ''c2'']
   \<and> containers_of (snd (output_of realtime_outed_runtime 4)) = []
   \<and> fst (container_exit_codes realtime_outed_runtime [''c1'', ''c2'']
            (final_state (launch_game 2 realtime_outed_runtime [alice, bob] example_params
               False False never_raises initial))) = Inr [2, 2]
   \<and> outcome_error (classify [2, 2]) = Some RealtimeOutedException"
proof -
  note n = container_names
  have run: "launch_game 2 realtime_outed_runtime [alice, bob] example_params False False
       never_raises initial = Some (Inr (),
         \<lparr>trace = [SubprocessCall (launch_cmd alice 0 2 example_params),
                   CheckOutput [''docker'', ''ps'', ''-f'', ''name=m1_0_alice'', ''-q''],
                   SubprocessCall (launch_cmd bob 1 2 example_params),
                   CheckOutput [''docker'', ''ps'', ''-f'', ''name=m1_1_bob'', ''-q''],
                   TimeSleep 1,
                   CheckOutputShell (docker_ps_command ''m1''),
                   TimeTime,
                   CheckOutputShell (docker_ps_command ''m1''),
                   TimeTime,
                   WaitCallback,
                   CheckOutputShell (docker_ps_command ''m1''),
                   SubprocessCall [''docker'', ''rm'', ''c1'', ''c2'']],
           calls = 3, outputs = 5, clocks = 2, waits = 1\<rparr>)"
    using finished_run by (simp add: n numeral_2_eq_2)
  have codes: "fst (container_exit_codes realtime_outed_runtime [''c1'', ''c2'']
      (st\<lparr>outputs := 5\<rparr>)) = Inr [2, 2]" for st
    by (simp add: container_exit_code_def check_output_of_def Let_def
        realtime_outed_runtime_simps py_int_def strip_chars_def inspect_strip_def whitespace_def
        parse_unsigned_def digit_value_def)
  have "fst (container_exit_codes realtime_outed_runtime [''c1'', ''c2'']
      (final_state (launch_game 2 realtime_outed_runtime [alice, bob] example_params
         False False never_raises initial))) = Inr [2, 2]"
    using codes [of "\<lparr>trace = [], calls = 3, outputs = 5, clocks = 2, waits = 1\<rparr>"]
    unfolding run final_state_def
    by (simp add: container_exit_code_def check_output_of_def Let_def
        realtime_outed_runtime_simps py_int_def strip_chars_def inspect_strip_def whitespace_def
        parse_unsigned_def digit_value_def)
  then show ?thesis
    by (simp add: run realtime_outed_runtime_simps containers_of_examples classify_def
        EXIT_CODE_REALTIME_OUTED_def)
qed

end
